theory Spec2Isabelle
  imports Main "HOL-Library.Word"
begin

section \<open>The client-classification expression parser (src/lib/eval/parser.cc)\<close>

text \<open>
  The development embeds \<^verbatim>\<open>EvalParser::parse\<close>, the table-driven LALR(1) driver
  generated by Bison, together with its semantic actions, its tables and the
  syntax-error message builder \<^verbatim>\<open>yysyntax_error_\<close>. The parser reads terminals
  from the lexer one at a time and appends evaluation tokens to the expression held by
  the evaluation context.
\<close>

subsection \<open>Data model\<close>

text \<open>\<^verbatim>\<open>Option::Universe\<close>: the protocol family of the evaluation context.\<close>

datatype Universe = V4 | V6

text \<open>A source position (line, column) and a source span, as in Bison's \<^verbatim>\<open>location\<close>.\<close>

type_synonym position = "nat \<times> nat"

record location =
  loc_begin :: position
  loc_end :: position

text \<open>The default-constructed location: line 1, column 1.\<close>

definition default_location :: location where
  "default_location = \<lparr>loc_begin = (1, 1), loc_end = (1, 1)\<rparr>"

text \<open>The enumerations named by the semantic actions.\<close>

datatype RepresentationType = TEXTUAL | HEXADECIMAL | EXISTS

datatype VendorFieldType = ENTERPRISE_ID | DATA

datatype MetadataType = IFACE | SRC | DST | LEN

datatype Pkt4FieldType =
  CHADDR | HLEN | HTYPE | CIADDR | GIADDR | YIADDR | SIADDR | MSGTYPE | TRANSID

datatype Pkt6FieldType = MSGTYPE6 | TRANSID6

datatype Relay6FieldType = PEERADDR | LINKADDR

text \<open>
  The vendor tokens are built either with a \<^verbatim>\<open>TokenOption::RepresentationType\<close>
  or with a \<^verbatim>\<open>TokenVendor\<close> field selector; the optional last constructor
  argument is present exactly when the action passes it.
\<close>

datatype VendorMode = Repr RepresentationType | Field VendorFieldType

datatype Token =
    TokenNot
  | TokenAnd
  | TokenOr
  | TokenEqual
  | TokenOption "16 word" RepresentationType
  | TokenRelay4Option "16 word" RepresentationType
  | TokenRelay6Option "8 word" "16 word" RepresentationType
  | TokenVendorClass Universe "32 word" VendorMode "8 word option"
  | TokenVendor Universe "32 word" VendorMode "16 word option"
  | TokenString string
  | TokenHexString string
  | TokenIpAddress string
  | TokenPkt MetadataType
  | TokenPkt4 Pkt4FieldType
  | TokenPkt6 Pkt6FieldType
  | TokenRelay6Field "8 word" Relay6FieldType
  | TokenSubstring
  | TokenConcat
  | TokenInteger "32 word"

text \<open>
  Modelled from the spec: \<^verbatim>\<open>EvalContext::error\<close> is not part of the sources at
  hand. Every compile-time error is fatal and is reported with a source span and a
  message, so \<^verbatim>\<open>error (loc, what)\<close> raises \<open>EvalParseError loc what\<close>. The
  literal conversions raise a \<open>ConversionError\<close> carrying the span of the literal.
\<close>

datatype parse_error =
    EvalParseError location string
  | ConversionError location

text \<open>
  The evaluation context: the protocol family, the expression (token program) under
  construction and the literal conversion helpers, which are members of the context
  whose bodies are outside the sources at hand and are therefore fields here.
\<close>

record EvalContext =
  universe :: Universe
  expression :: "Token list"
  convertUint8 :: "string \<Rightarrow> location \<Rightarrow> parse_error + 8 word"
  convertUint32 :: "string \<Rightarrow> location \<Rightarrow> parse_error + 32 word"
  convertOptionCode :: "string \<Rightarrow> location \<Rightarrow> parse_error + 16 word"
  convertOptionName :: "string \<Rightarrow> location \<Rightarrow> parse_error + 16 word"
  convertNestLevelNumber :: "string \<Rightarrow> location \<Rightarrow> parse_error + 8 word"

text \<open>\<^verbatim>\<open>ctx.getUniverse()\<close> reads the family selector.\<close>

definition getUniverse :: "EvalContext \<Rightarrow> Universe" where
  "getUniverse ctx = universe ctx"

text \<open>The variant semantic value of a grammar symbol.\<close>

datatype semantic_type =
    Empty
  | String string
  | Uint8 "8 word"
  | Uint16 "16 word"
  | Uint32 "32 word"
  | ReprVal RepresentationType
  | MetadataVal MetadataType
  | Pkt4Val Pkt4FieldType
  | Pkt6Val Pkt6FieldType
  | Relay6Val Relay6FieldType

text \<open>
  \<^verbatim>\<open>value.as< T > ()\<close>: reading a variant at the type it holds. Reading it at
  another type is undefined in the source and is left unspecified here.
\<close>

fun as_string :: "semantic_type \<Rightarrow> string" where
  "as_string (String s) = s"

fun as_uint8 :: "semantic_type \<Rightarrow> 8 word" where
  "as_uint8 (Uint8 w) = w"

fun as_uint16 :: "semantic_type \<Rightarrow> 16 word" where
  "as_uint16 (Uint16 w) = w"

fun as_uint32 :: "semantic_type \<Rightarrow> 32 word" where
  "as_uint32 (Uint32 w) = w"

fun as_repr :: "semantic_type \<Rightarrow> RepresentationType" where
  "as_repr (ReprVal r) = r"

fun as_metadata :: "semantic_type \<Rightarrow> MetadataType" where
  "as_metadata (MetadataVal m) = m"

fun as_pkt4 :: "semantic_type \<Rightarrow> Pkt4FieldType" where
  "as_pkt4 (Pkt4Val f) = f"

fun as_pkt6 :: "semantic_type \<Rightarrow> Pkt6FieldType" where
  "as_pkt6 (Pkt6Val f) = f"

fun as_relay6 :: "semantic_type \<Rightarrow> Relay6FieldType" where
  "as_relay6 (Relay6Val f) = f"

text \<open>A terminal delivered by the lexer, and an entry of the parser stack.\<close>

record symbol_type =
  sym_type :: int
  sym_value :: semantic_type
  sym_location :: location

record stack_symbol_type =
  state :: int
  svalue :: semantic_type
  slocation :: location

subsection \<open>The generated tables\<close>

text \<open>
  Constants of the generated header: the number of terminals, the last index of
  \<^verbatim>\<open>yytable_\<close>, the accepting state, and the numbers of the end-of-file and
  error terminals. They are fixed by the tables below (52 names precede
  \<^verbatim>\<open>$accept\<close>, the tables have 180 entries, state 3 shifts end-of-file to state 27).
\<close>

definition yyntokens :: int where "yyntokens = 52"
definition yylast :: int where "yylast = 179"
definition yyfinal :: int where "yyfinal = 27"
definition yyeof :: int where "yyeof = 0"
definition yyterror :: int where "yyterror = 1"
definition yypact_ninf :: int where "yypact_ninf = - 98"
definition yytable_ninf :: int where "yytable_ninf = - 1"

definition yypact :: "int list" where
  "yypact =
    [- 23, 41, 41, 36, 41, 41, 28, 31, 35, 56,
     60, 92, 93, 84, - 8, 59, - 98, - 98, - 98, - 98,
     - 98, 47, 55, - 98, - 98, 47, 55, - 98, 58, - 98,
     43, 43, 61, 17, - 14, 88, 88, 48, - 22, 73,
     - 22, 74, 41, 41, 88, - 98, - 98, - 98, 107, 108,
     - 98, 111, - 98, - 98, - 98, - 98, - 98, - 98, - 98, - 98,
     - 98, - 98, - 98, - 98, - 98, - 98, - 98, 113, 116, 117,
     91, 96, 71, 98, - 98, - 98, - 98, - 98, - 98, 119,
     - 98, 123, - 98, - 98, 126, - 98, 124, 125, 127, 43,
     43, 61, - 22, - 22, 94, 88, 128, 129, 52, 66,
     18, 131, 132, 133, 134, 135, - 98, 118, 147, - 15,
     2, - 98, - 98, - 98, - 98, - 98, - 98, 138, - 98, - 98,
     - 98, 139, 140, 141, 142, 143, - 29, - 98, - 98, 146,
     148, - 98, 43, 62, 62, 20, 120, 145, - 98, - 98,
     157, 121, 43, 149, 151, 152, - 98, 153, 155, 156,
     43, 43, - 98, 158, 85, 160, 161, 97, - 98, - 98,
     162, 163, - 98, - 98, 62, 62]"

definition yydefact :: "int list" where
  "yydefact =
    [0, 0, 0, 0, 0, 0, 0, 0, 0, 0,
     0, 0, 0, 0, 0, 0, 18, 36, 19, 20,
     2, 6, 0, 35, 3, 4, 5, 1, 0, 8,
     0, 0, 0, 0, 0, 0, 0, 0, 0, 0,
     0, 0, 0, 0, 0, 7, 37, 38, 0, 0,
     41, 0, 42, 43, 44, 45, 24, 48, 49, 50,
     51, 52, 53, 54, 55, 56, 25, 0, 0, 0,
     0, 0, 0, 0, 57, 58, 26, 47, 46, 0,
     31, 0, 30, 9, 10, 11, 0, 0, 0, 0,
     0, 0, 0, 0, 0, 0, 0, 0, 0, 0,
     0, 0, 0, 0, 0, 0, 61, 0, 0, 0,
     0, 39, 40, 12, 21, 13, 22, 0, 59, 60,
     27, 0, 0, 0, 0, 0, 0, 29, 15, 33,
     0, 16, 0, 0, 0, 0, 0, 0, 63, 62,
     0, 0, 0, 0, 0, 0, 28, 0, 0, 0,
     0, 0, 34, 0, 0, 0, 0, 0, 14, 23,
     0, 0, 17, 32, 0, 0]"

definition yypgoto :: "int list" where
  "yypgoto =
    [- 98, - 98, - 98, - 98, 5, - 1, - 98, - 31, - 97, 76,
     - 98, - 37, - 98, - 98, - 98, - 98, - 98]"

definition yydefgoto :: "int list" where
  "yydefgoto =
    [- 1, 3, 24, 20, 21, 22, 23, 48, 114, 51,
     56, 79, 66, 76, 120, 107, 140]"

definition yytable :: "int list" where
  "yytable =
    [49, 26, 116, 81, 128, 138, 38, 25, 39, 28,
     29, 130, 57, 58, 59, 60, 61, 62, 63, 139,
     77, 131, 1, 2, 64, 65, 78, 117, 129, 144,
     118, 119, 118, 119, 72, 73, 27, 116, 52, 53,
     54, 55, 30, 85, 4, 31, 5, 83, 84, 32,
     6, 7, 8, 42, 43, 104, 105, 159, 101, 102,
     163, 9, 45, 44, 42, 43, 10, 159, 163, 111,
     112, 113, 33, 40, 11, 41, 34, 12, 13, 111,
     112, 14, 15, 111, 112, 115, 74, 75, 16, 17,
     18, 46, 19, 47, 108, 35, 36, 67, 68, 69,
     37, 143, 111, 112, 158, 92, 94, 39, 9, 50,
     93, 148, 41, 10, 111, 112, 162, 80, 82, 155,
     156, 11, 86, 87, 12, 13, 88, 89, 70, 71,
     90, 91, 42, 95, 96, 16, 17, 18, 97, 19,
     98, 99, 106, 100, 109, 110, 121, 122, 123, 124,
     125, 127, 132, 126, 145, 133, 134, 135, 136, 137,
     141, 146, 142, 129, 149, 150, 151, 103, 152, 147,
     153, 0, 154, 0, 157, 160, 161, 0, 164, 165]"

definition yycheck :: "int list" where
  "yycheck =
    [31, 2, 99, 40, 19, 34, 14, 2, 16, 4,
     5, 9, 26, 27, 28, 29, 30, 31, 32, 48,
     42, 19, 45, 46, 38, 39, 48, 9, 43, 9,
     12, 13, 12, 13, 35, 36, 0, 134, 21, 22,
     23, 24, 14, 44, 3, 14, 5, 42, 43, 14,
     9, 10, 11, 6, 7, 92, 93, 154, 89, 90,
     157, 20, 4, 8, 6, 7, 25, 164, 165, 17,
     18, 19, 16, 14, 33, 16, 16, 36, 37, 17,
     18, 40, 41, 17, 18, 19, 38, 39, 47, 48,
     49, 48, 51, 50, 95, 3, 3, 9, 10, 11,
     16, 132, 17, 18, 19, 14, 35, 16, 20, 48,
     14, 142, 16, 25, 17, 18, 19, 44, 44, 150,
     151, 33, 15, 15, 36, 37, 15, 14, 40, 41,
     14, 14, 6, 35, 15, 47, 48, 49, 15, 51,
     16, 16, 48, 16, 16, 16, 15, 15, 15, 15,
     15, 4, 14, 35, 9, 16, 16, 16, 16, 16,
     14, 4, 14, 43, 15, 14, 14, 91, 15, 48,
     15, - 1, 16, - 1, 16, 15, 15, - 1, 16, 16]"

definition yystos :: "int list" where
  "yystos =
    [0, 45, 46, 53, 3, 5, 9, 10, 11, 20,
     25, 33, 36, 37, 40, 41, 47, 48, 49, 51,
     55, 56, 57, 58, 54, 56, 57, 0, 56, 56,
     14, 14, 14, 16, 16, 3, 3, 16, 14, 16,
     14, 16, 6, 7, 8, 4, 48, 50, 59, 59,
     48, 61, 21, 22, 23, 24, 62, 26, 27, 28,
     29, 30, 31, 32, 38, 39, 64, 9, 10, 11,
     40, 41, 57, 57, 38, 39, 65, 42, 48, 63,
     44, 63, 44, 56, 56, 57, 15, 15, 15, 14,
     14, 14, 14, 14, 35, 35, 15, 15, 16, 16,
     16, 59, 59, 61, 63, 63, 48, 67, 57, 16,
     16, 17, 18, 19, 60, 19, 60, 9, 12, 13,
     66, 15, 15, 15, 15, 15, 35, 4, 19, 43,
     9, 19, 14, 16, 16, 16, 16, 16, 34, 48,
     68, 14, 14, 59, 9, 9, 4, 48, 59, 15,
     14, 14, 15, 15, 16, 59, 59, 16, 19, 60,
     15, 15, 19, 60, 16, 16]"

definition yyr1 :: "int list" where
  "yyr1 =
    [0, 52, 53, 53, 54, 54, 55, 56, 56, 56,
     56, 56, 56, 56, 56, 56, 56, 56, 57, 57,
     57, 57, 57, 57, 57, 57, 57, 57, 57, 57,
     57, 57, 57, 57, 57, 57, 58, 59, 59, 60,
     60, 61, 62, 62, 62, 62, 63, 63, 64, 64,
     64, 64, 64, 64, 64, 64, 64, 65, 65, 66,
     66, 67, 68, 68]"

text \<open>The length of the right-hand side of each rule, one row of the source per list.\<close>

definition yyr2 :: "int list" where
  "yyr2 =
    [0, 2, 2, 2, 1, 1, 1, 3, 2, 3] @
    [3, 3, 6, 6, 11, 6, 6, 11, 1, 1] @
    [1, 6, 6, 11, 3, 3, 3, 6, 8, 6] @
    [3, 3, 11, 6, 9, 1, 1, 1, 1, 1] @
    [1, 1, 1, 1, 1, 1, 1, 1, 1, 1] @
    [1, 1, 1, 1, 1, 1, 1, 1, 1, 1] @
    [1, 1, 1, 1]"

definition yytname :: "string list" where
  \<open>yytname =
    [''"end of file"'', ''error'', ''$undefined'', ''"("'',
     ''")"'', ''"not"'', ''"and"'', ''"or"'',
     ''"=="'', ''"option"'', ''"relay4"'', ''"relay6"'',
     ''"peeraddr"'', ''"linkaddr"'', ''"["'', ''"]"'',
     ''"."'', ''"text"'', ''"hex"'', ''"exists"'',
     ''"pkt"'', ''"iface"'', ''"src"'', ''"dst"'',
     ''"len"'', ''"pkt4"'', ''"mac"'', ''"hlen"'',
     ''"htype"'', ''"ciaddr"'', ''"giaddr"'', ''"yiaddr"'',
     ''"siaddr"'', ''"substring"'', ''"all"'', ''","'',
     ''"concat"'', ''"pkt6"'', ''"msgtype"'', ''"transid"'',
     ''"vendor-class"'', ''"vendor"'', ''"*"'', ''"data"'',
     ''"enterprise"'', ''"top-level bool"'', ''"top-level string"'', ''"constant string"'',
     ''"integer"'', ''"constant hexstring"'', ''"option name"'', ''"ip address"'',
     ''$accept'', ''start'', ''string_expression'', ''expression'',
     ''bool_expr'', ''string_expr'', ''integer_expr'', ''option_code'',
     ''option_repr_type'', ''nest_level'', ''pkt_metadata'', ''enterprise_id'',
     ''pkt4_field'', ''pkt6_field'', ''relay6_field'', ''start_expr'',
     ''length_expr'']\<close>
subsection \<open>Table access\<close>

definition yy_pact_value_is_default :: "int \<Rightarrow> bool" where
  "yy_pact_value_is_default yyvalue = (yyvalue = yypact_ninf)"

definition yy_table_value_is_error :: "int \<Rightarrow> bool" where
  "yy_table_value_is_error yyvalue = (yyvalue = yytable_ninf)"

definition yy_lr_goto_state :: "int \<Rightarrow> int \<Rightarrow> int" where
  "yy_lr_goto_state yystate yysym =
     (let yyr = yypgoto ! nat (yysym - yyntokens) + yystate
      in if 0 \<le> yyr \<and> yyr \<le> yylast \<and> yycheck ! nat yyr = yystate
         then yytable ! nat yyr
         else yydefgoto ! nat (yysym - yyntokens))"

subsection \<open>Semantic actions\<close>

text \<open>
  An action either raises an error or returns the semantic value of the left-hand side
  together with the updated context. \<open>push_back\<close> is
  \<^verbatim>\<open>ctx.expression.push_back\<close>; \<open>error\<close> is \<^verbatim>\<open>EvalParser::error\<close>, which
  hands over to the context and does not return.
\<close>

type_synonym action_result = "parse_error + semantic_type \<times> EvalContext"

definition push_back :: "EvalContext \<Rightarrow> Token \<Rightarrow> action_result" where
  "push_back ctx t = Inr (Empty, ctx\<lparr>expression := expression ctx @ [t]\<rparr>)"

definition error :: "location \<Rightarrow> string \<Rightarrow> action_result" where
  "error loc what = Inl (EvalParseError loc what)"

definition assign :: "EvalContext \<Rightarrow> semantic_type \<Rightarrow> action_result" where
  "assign ctx v = Inr (v, ctx)"

definition converted ::
  "EvalContext \<Rightarrow> parse_error + 'a \<Rightarrow> ('a \<Rightarrow> semantic_type) \<Rightarrow> action_result" where
  "converted ctx r mk = (case r of Inl e \<Rightarrow> Inl e | Inr w \<Rightarrow> Inr (mk w, ctx))"

text \<open>
  The \<^verbatim>\<open>switch (yyn)\<close> of \<^verbatim>\<open>yyreduce\<close>. \<open>stk ! i\<close> is
  \<^verbatim>\<open>yystack_[i]\<close>, with index 0 the top of the stack.
\<close>

definition semantic_action ::
  "EvalContext \<Rightarrow> int \<Rightarrow> stack_symbol_type list \<Rightarrow> action_result" where
  "semantic_action ctx yyn stk =
    (if yyn = 8 then push_back ctx TokenNot
     else if yyn = 9 then push_back ctx TokenAnd
     else if yyn = 10 then push_back ctx TokenOr
     else if yyn = 11 then push_back ctx TokenEqual
     else if yyn = 12 then
       push_back ctx (TokenOption (as_uint16 (svalue (stk ! 3))) EXISTS)
     else if yyn = 13 then
       (case getUniverse ctx of
          V4 \<Rightarrow> push_back ctx (TokenRelay4Option (as_uint16 (svalue (stk ! 3))) EXISTS)
        | V6 \<Rightarrow> error (slocation (stk ! 5)) ''relay4 can only be used in DHCPv4.'')
     else if yyn = 14 then
       (case getUniverse ctx of
          V6 \<Rightarrow> push_back ctx (TokenRelay6Option (as_uint8 (svalue (stk ! 8)))
                                (as_uint16 (svalue (stk ! 3))) EXISTS)
        | V4 \<Rightarrow> error (slocation (stk ! 10)) ''relay6 can only be used in DHCPv6.'')
     else if yyn = 15 then
       push_back ctx (TokenVendorClass (getUniverse ctx) (as_uint32 (svalue (stk ! 3)))
                        (Repr EXISTS) None)
     else if yyn = 16 then
       push_back ctx (TokenVendor (getUniverse ctx) (as_uint32 (svalue (stk ! 3)))
                        (Repr EXISTS) None)
     else if yyn = 17 then
       push_back ctx (TokenVendor (getUniverse ctx) (as_uint32 (svalue (stk ! 8)))
                        (Repr EXISTS) (Some (as_uint16 (svalue (stk ! 3)))))
     else if yyn = 18 then push_back ctx (TokenString (as_string (svalue (stk ! 0))))
     else if yyn = 19 then push_back ctx (TokenHexString (as_string (svalue (stk ! 0))))
     else if yyn = 20 then push_back ctx (TokenIpAddress (as_string (svalue (stk ! 0))))
     else if yyn = 21 then
       push_back ctx (TokenOption (as_uint16 (svalue (stk ! 3))) (as_repr (svalue (stk ! 0))))
     else if yyn = 22 then
       (case getUniverse ctx of
          V4 \<Rightarrow> push_back ctx (TokenRelay4Option (as_uint16 (svalue (stk ! 3)))
                                (as_repr (svalue (stk ! 0))))
        | V6 \<Rightarrow> error (slocation (stk ! 5)) ''relay4 can only be used in DHCPv4.'')
     else if yyn = 23 then
       (case getUniverse ctx of
          V6 \<Rightarrow> push_back ctx (TokenRelay6Option (as_uint8 (svalue (stk ! 8)))
                                (as_uint16 (svalue (stk ! 3))) (as_repr (svalue (stk ! 0))))
        | V4 \<Rightarrow> error (slocation (stk ! 10)) ''relay6 can only be used in DHCPv6.'')
     else if yyn = 24 then push_back ctx (TokenPkt (as_metadata (svalue (stk ! 0))))
     else if yyn = 25 then
       (case getUniverse ctx of
          V4 \<Rightarrow> push_back ctx (TokenPkt4 (as_pkt4 (svalue (stk ! 0))))
        | V6 \<Rightarrow> error (slocation (stk ! 2)) ''pkt4 can only be used in DHCPv4.'')
     else if yyn = 26 then
       (case getUniverse ctx of
          V6 \<Rightarrow> push_back ctx (TokenPkt6 (as_pkt6 (svalue (stk ! 0))))
        | V4 \<Rightarrow> error (slocation (stk ! 2)) ''pkt6 can only be used in DHCPv6.'')
     else if yyn = 27 then
       (case getUniverse ctx of
          V6 \<Rightarrow> push_back ctx (TokenRelay6Field (as_uint8 (svalue (stk ! 3)))
                                (as_relay6 (svalue (stk ! 0))))
        | V4 \<Rightarrow> error (slocation (stk ! 5)) ''relay6 can only be used in DHCPv6.'')
     else if yyn = 28 then push_back ctx TokenSubstring
     else if yyn = 29 then push_back ctx TokenConcat
     else if yyn = 30 then
       push_back ctx (TokenVendor (getUniverse ctx) 0 (Field ENTERPRISE_ID) None)
     else if yyn = 31 then
       push_back ctx (TokenVendorClass (getUniverse ctx) 0 (Field ENTERPRISE_ID) None)
     else if yyn = 32 then
       push_back ctx (TokenVendor (getUniverse ctx) (as_uint32 (svalue (stk ! 8)))
                        (Repr (as_repr (svalue (stk ! 0)))) (Some (as_uint16 (svalue (stk ! 3)))))
     else if yyn = 33 then
       push_back ctx (TokenVendorClass (getUniverse ctx) (as_uint32 (svalue (stk ! 3)))
                        (Field DATA) (Some 0))
     else if yyn = 34 then
       (case convertUint8 ctx (as_string (svalue (stk ! 1))) (slocation (stk ! 1)) of
          Inl e \<Rightarrow> Inl e
        | Inr index \<Rightarrow>
            push_back ctx (TokenVendorClass (getUniverse ctx) (as_uint32 (svalue (stk ! 6)))
                             (Field DATA) (Some index)))
     else if yyn = 35 then push_back ctx (TokenInteger (as_uint32 (svalue (stk ! 0))))
     else if yyn = 36 then
       converted ctx (convertUint32 ctx (as_string (svalue (stk ! 0))) (slocation (stk ! 0))) Uint32
     else if yyn = 37 then
       converted ctx (convertOptionCode ctx (as_string (svalue (stk ! 0))) (slocation (stk ! 0)))
         Uint16
     else if yyn = 38 then
       converted ctx (convertOptionName ctx (as_string (svalue (stk ! 0))) (slocation (stk ! 0)))
         Uint16
     else if yyn = 39 then assign ctx (ReprVal TEXTUAL)
     else if yyn = 40 then assign ctx (ReprVal HEXADECIMAL)
     else if yyn = 41 then
       converted ctx
         (convertNestLevelNumber ctx (as_string (svalue (stk ! 0))) (slocation (stk ! 0))) Uint8
     else if yyn = 42 then assign ctx (MetadataVal IFACE)
     else if yyn = 43 then assign ctx (MetadataVal SRC)
     else if yyn = 44 then assign ctx (MetadataVal DST)
     else if yyn = 45 then assign ctx (MetadataVal LEN)
     else if yyn = 46 then
       converted ctx (convertUint32 ctx (as_string (svalue (stk ! 0))) (slocation (stk ! 0))) Uint32
     else if yyn = 47 then assign ctx (Uint32 0)
     else if yyn = 48 then assign ctx (Pkt4Val CHADDR)
     else if yyn = 49 then assign ctx (Pkt4Val HLEN)
     else if yyn = 50 then assign ctx (Pkt4Val HTYPE)
     else if yyn = 51 then assign ctx (Pkt4Val CIADDR)
     else if yyn = 52 then assign ctx (Pkt4Val GIADDR)
     else if yyn = 53 then assign ctx (Pkt4Val YIADDR)
     else if yyn = 54 then assign ctx (Pkt4Val SIADDR)
     else if yyn = 55 then assign ctx (Pkt4Val MSGTYPE)
     else if yyn = 56 then assign ctx (Pkt4Val TRANSID)
     else if yyn = 57 then assign ctx (Pkt6Val MSGTYPE6)
     else if yyn = 58 then assign ctx (Pkt6Val TRANSID6)
     else if yyn = 59 then assign ctx (Relay6Val PEERADDR)
     else if yyn = 60 then assign ctx (Relay6Val LINKADDR)
     else if yyn = 61 then push_back ctx (TokenString (as_string (svalue (stk ! 0))))
     else if yyn = 62 then push_back ctx (TokenString (as_string (svalue (stk ! 0))))
     else if yyn = 63 then push_back ctx (TokenString ''all'')
     else assign ctx Empty)"

subsection \<open>Syntax-error messages\<close>

text \<open>
  \<^verbatim>\<open>yytnamerr_\<close> strips the double quotes of a terminal name unless the name
  holds an apostrophe, a comma or a lone backslash. \<open>yytnamerr_strip\<close> is its loop
  over the characters after the opening quote, \<open>None\<close> standing for the jump to
  \<^verbatim>\<open>do_not_strip_quotes\<close>. Running off the end of the name is undefined in the
  source and unspecified here.
\<close>

fun yytnamerr_strip :: "string \<Rightarrow> string \<Rightarrow> string option" where
  "yytnamerr_strip (c # cs) yyr =
     (if c = CHR 0x27 \<or> c = CHR '','' then None
      else if c = CHR 0x5C then
        (case cs of
           [] \<Rightarrow> None
         | d # ds \<Rightarrow> if d \<noteq> CHR 0x5C then None else yytnamerr_strip ds (yyr @ [d]))
      else if c = CHR 0x22 then Some yyr
      else yytnamerr_strip cs (yyr @ [c]))"

definition yytnamerr :: "string \<Rightarrow> string" where
  "yytnamerr yystr =
     (case yystr of
        [] \<Rightarrow> yystr
      | c # cs \<Rightarrow>
          if c = CHR 0x22 then
            (case yytnamerr_strip cs [] of Some yyr \<Rightarrow> yyr | None \<Rightarrow> yystr)
          else yystr)"

definition YYERROR_VERBOSE_ARGS_MAXIMUM :: nat where
  "YYERROR_VERBOSE_ARGS_MAXIMUM = 5"

text \<open>
  The loop over the terminals \<open>yyx\<close> that collects the names of the expected
  terminals in \<open>yyarg\<close> (whose length is \<^verbatim>\<open>yycount\<close>). When a further name
  would exceed the maximum, \<^verbatim>\<open>yycount\<close> is reset to 1 and the loop is left.
\<close>

fun yyexpected_loop :: "int \<Rightarrow> int list \<Rightarrow> string list \<Rightarrow> string list" where
  "yyexpected_loop yyn [] yyarg = yyarg"
| "yyexpected_loop yyn (yyx # rest) yyarg =
     (if yycheck ! nat (yyx + yyn) = yyx \<and> yyx \<noteq> yyterror
         \<and> \<not> yy_table_value_is_error (yytable ! nat (yyx + yyn))
      then (if length yyarg = YYERROR_VERBOSE_ARGS_MAXIMUM then take 1 yyarg
            else yyexpected_loop yyn rest (yyarg @ [yytname ! nat yyx]))
      else yyexpected_loop yyn rest yyarg)"

text \<open>The arguments of the message: the unexpected terminal, then the expected ones.\<close>

definition yysyntax_error_args :: "int \<Rightarrow> symbol_type option \<Rightarrow> string list" where
  "yysyntax_error_args yystate yyla =
     (case yyla of
        None \<Rightarrow> []
      | Some la \<Rightarrow>
          (let yytoken = sym_type la;
               yyarg = [yytname ! nat yytoken];
               yyn = yypact ! nat yystate
           in if \<not> yy_pact_value_is_default yyn then
                (let yyxbegin = (if yyn < 0 then - yyn else 0);
                     yychecklim = yylast - yyn + 1;
                     yyxend = (if yychecklim < yyntokens then yychecklim else yyntokens)
                 in yyexpected_loop yyn [yyxbegin..yyxend - 1] yyarg)
              else yyarg))"

fun yyformat :: "nat \<Rightarrow> string" where
  "yyformat 0 = ''syntax error''"
| "yyformat (Suc 0) = ''syntax error, unexpected %s''"
| "yyformat (Suc (Suc 0)) = ''syntax error, unexpected %s, expecting %s''"
| "yyformat (Suc (Suc (Suc 0))) = ''syntax error, unexpected %s, expecting %s or %s''"
| "yyformat (Suc (Suc (Suc (Suc 0)))) =
     ''syntax error, unexpected %s, expecting %s or %s or %s''"
| "yyformat (Suc (Suc (Suc (Suc (Suc 0))))) =
     ''syntax error, unexpected %s, expecting %s or %s or %s or %s''"

text \<open>Copying the format, each \<^verbatim>\<open>%s\<close> replaced by the next argument while one is left.\<close>

fun yyformat_fill :: "string \<Rightarrow> string list \<Rightarrow> string" where
  "yyformat_fill (c # d # cs) (a # args) =
     (if c = CHR ''%'' \<and> d = CHR ''s'' then yytnamerr a @ yyformat_fill cs args
      else c # yyformat_fill (d # cs) (a # args))"
| "yyformat_fill (c # cs) args = c # yyformat_fill cs args"
| "yyformat_fill [] args = []"

definition yysyntax_error :: "int \<Rightarrow> symbol_type option \<Rightarrow> string" where
  "yysyntax_error yystate yyla =
     (let yyarg = yysyntax_error_args yystate yyla
      in yyformat_fill (yyformat (length yyarg)) yyarg)"

subsection \<open>The parser driver\<close>

text \<open>
  The lexer is outside the sources at hand: the terminals it would deliver are given as
  a list, and at the end of the list it delivers end-of-file.
\<close>

fun yylex :: "symbol_type list \<Rightarrow> symbol_type \<times> symbol_type list" where
  "yylex [] = (\<lparr>sym_type = yyeof, sym_value = Empty, sym_location = default_location\<rparr>, [])"
| "yylex (t # ts) = (t, ts)"

text \<open>
  The state of \<^verbatim>\<open>parse\<close>: the stack (top first), the lookahead (\<open>None\<close> when
  empty), the terminals not yet read and the context. Since \<^verbatim>\<open>error\<close> does not
  return, the error status stays 0 and the recovery code after the calls of
  \<^verbatim>\<open>error\<close> is never reached; neither is part of the state.
\<close>

record parser_state =
  yystack :: "stack_symbol_type list"
  yyla :: "symbol_type option"
  input :: "symbol_type list"
  ctx :: EvalContext

text \<open>
  One pass from \<^verbatim>\<open>yynewstate\<close> back to \<^verbatim>\<open>yynewstate\<close> ends in one of three
  ways: the parser accepts (\<^verbatim>\<open>yyresult = 0\<close>), an error is raised, or a symbol was
  pushed and the loop goes on.
\<close>

datatype control = Return EvalContext | Throw parse_error | Continue parser_state

definition YYLLOC_DEFAULT :: "stack_symbol_type list \<Rightarrow> int \<Rightarrow> location" where
  "YYLLOC_DEFAULT stk n =
     (if n \<noteq> 0
      then \<lparr>loc_begin = loc_begin (slocation (stk ! nat (n - 1))),
            loc_end = loc_end (slocation (stk ! 0))\<rparr>
      else \<lparr>loc_begin = loc_end (slocation (stk ! 0)),
            loc_end = loc_end (slocation (stk ! 0))\<rparr>)"

definition yyreduce :: "parser_state \<Rightarrow> int \<Rightarrow> control" where
  "yyreduce st yyn =
     (let yylen = yyr2 ! nat yyn;
          yylhs_state = yy_lr_goto_state (state (yystack st ! nat yylen)) (yyr1 ! nat yyn);
          yylhs_location = YYLLOC_DEFAULT (yystack st) yylen
      in case semantic_action (ctx st) yyn (yystack st) of
           Inl e \<Rightarrow> Throw e
         | Inr (v, ctx') \<Rightarrow>
             Continue (st\<lparr>yystack :=
                            \<lparr>state = yylhs_state, svalue = v, slocation = yylhs_location\<rparr>
                              # drop (nat yylen) (yystack st),
                          ctx := ctx'\<rparr>))"

definition yyerrlab :: "parser_state \<Rightarrow> control" where
  "yyerrlab st =
     Throw (EvalParseError
              (case yyla st of None \<Rightarrow> default_location | Some la \<Rightarrow> sym_location la)
              (yysyntax_error (state (yystack st ! 0)) (yyla st)))"

definition yydefault :: "parser_state \<Rightarrow> control" where
  "yydefault st =
     (let yyn = yydefact ! nat (state (yystack st ! 0))
      in if yyn = 0 then yyerrlab st else yyreduce st yyn)"

definition yybackup :: "parser_state \<Rightarrow> control" where
  "yybackup st =
     (let yyn = yypact ! nat (state (yystack st ! 0))
      in if yy_pact_value_is_default yyn then yydefault st
         else
           (let (la, rest) = (case yyla st of None \<Rightarrow> yylex (input st)
                                            | Some la \<Rightarrow> (la, input st));
                st = st\<lparr>yyla := Some la, input := rest\<rparr>;
                yyn = yyn + sym_type la
            in if yyn < 0 \<or> yylast < yyn \<or> yycheck ! nat yyn \<noteq> sym_type la
               then yydefault st
               else
                 (let yyn = yytable ! nat yyn
                  in if yyn \<le> 0
                     then (if yy_table_value_is_error yyn then yyerrlab st
                           else yyreduce st (- yyn))
                     else Continue
                            (st\<lparr>yystack :=
                                  \<lparr>state = yyn, svalue = sym_value la,
                                   slocation = sym_location la\<rparr> # yystack st,
                                yyla := None\<rparr>))))"

definition yynewstate :: "parser_state \<Rightarrow> control" where
  "yynewstate st =
     (if state (yystack st ! 0) = yyfinal then Return (ctx st) else yybackup st)"

partial_function (option) yyloop :: "parser_state \<Rightarrow> (parse_error + EvalContext) option" where
  "yyloop st =
     (case yynewstate st of
        Return c \<Rightarrow> Some (Inr c)
      | Throw e \<Rightarrow> Some (Inl e)
      | Continue st' \<Rightarrow> yyloop st')"

declare yyloop.simps [code]

text \<open>
  \<^verbatim>\<open>EvalParser::parse\<close>: the stack starts with state 0 and an empty symbol.
  \<open>None\<close> would mean that the loop never ends.
\<close>

definition parse :: "EvalContext \<Rightarrow> symbol_type list \<Rightarrow> (parse_error + EvalContext) option" where
  "parse c toks =
     yyloop \<lparr>yystack = [\<lparr>state = 0, svalue = Empty, slocation = default_location\<rparr>],
             yyla = None, input = toks, ctx = c\<rparr>"

text \<open>
  The outcome of a compilation as its caller sees it: the error, or the finished
  program. \<open>None\<close> only if the parser did not return.
\<close>

definition compile :: "EvalContext \<Rightarrow> symbol_type list \<Rightarrow> (parse_error + Token list) option" where
  "compile c toks = map_option (map_sum id expression) (parse c toks)"

subsection \<open>Iterating the driver\<close>

text \<open>
  \<open>yyrun n st\<close> follows the loop of \<^verbatim>\<open>parse\<close> for at most \<open>n\<close> passes from
  \<open>st\<close>: it is \<open>Continue st'\<close> when the loop is at \<open>st'\<close> after exactly \<open>n\<close>
  passes, and the final outcome when the loop ended earlier.
\<close>

fun yyrun :: "nat \<Rightarrow> parser_state \<Rightarrow> control" where
  "yyrun 0 st = Continue st"
| "yyrun (Suc n) st =
     (case yynewstate st of
        Return c \<Rightarrow> Return c
      | Throw e \<Rightarrow> Throw e
      | Continue st' \<Rightarrow> yyrun n st')"

text \<open>The state in which \<^verbatim>\<open>parse\<close> enters its loop.\<close>

definition initial_state :: "EvalContext \<Rightarrow> symbol_type list \<Rightarrow> parser_state" where
  "initial_state c toks =
     \<lparr>yystack = [\<lparr>state = 0, svalue = Empty, slocation = default_location\<rparr>],
      yyla = None, input = toks, ctx = c\<rparr>"

text \<open>The terminals the parser has still to consume: the lookahead, if read, then the rest.\<close>

definition pending :: "parser_state \<Rightarrow> symbol_type list" where
  "pending st = (case yyla st of None \<Rightarrow> input st | Some la \<Rightarrow> la # input st)"

subsection \<open>Terminals\<close>

text \<open>
  The numbers of the terminals, in the order of \<^verbatim>\<open>yytname_\<close>; the lexer
  delivers symbols carrying these numbers.
\<close>

definition T_END :: int where "T_END = 0"
definition T_LPAREN :: int where "T_LPAREN = 3"
definition T_RPAREN :: int where "T_RPAREN = 4"
definition T_NOT :: int where "T_NOT = 5"
definition T_AND :: int where "T_AND = 6"
definition T_OR :: int where "T_OR = 7"
definition T_EQUAL :: int where "T_EQUAL = 8"
definition T_OPTION :: int where "T_OPTION = 9"
definition T_RELAY4 :: int where "T_RELAY4 = 10"
definition T_RELAY6 :: int where "T_RELAY6 = 11"
definition T_PEERADDR :: int where "T_PEERADDR = 12"
definition T_LINKADDR :: int where "T_LINKADDR = 13"
definition T_LBRACKET :: int where "T_LBRACKET = 14"
definition T_RBRACKET :: int where "T_RBRACKET = 15"
definition T_DOT :: int where "T_DOT = 16"
definition T_TEXT :: int where "T_TEXT = 17"
definition T_HEX :: int where "T_HEX = 18"
definition T_EXISTS :: int where "T_EXISTS = 19"
definition T_PKT :: int where "T_PKT = 20"
definition T_IFACE :: int where "T_IFACE = 21"
definition T_SRC :: int where "T_SRC = 22"
definition T_DST :: int where "T_DST = 23"
definition T_LEN :: int where "T_LEN = 24"
definition T_PKT4 :: int where "T_PKT4 = 25"
definition T_MAC :: int where "T_MAC = 26"
definition T_HLEN :: int where "T_HLEN = 27"
definition T_HTYPE :: int where "T_HTYPE = 28"
definition T_CIADDR :: int where "T_CIADDR = 29"
definition T_GIADDR :: int where "T_GIADDR = 30"
definition T_YIADDR :: int where "T_YIADDR = 31"
definition T_SIADDR :: int where "T_SIADDR = 32"
definition T_SUBSTRING :: int where "T_SUBSTRING = 33"
definition T_ALL :: int where "T_ALL = 34"
definition T_COMA :: int where "T_COMA = 35"
definition T_CONCAT :: int where "T_CONCAT = 36"
definition T_PKT6 :: int where "T_PKT6 = 37"
definition T_MSGTYPE :: int where "T_MSGTYPE = 38"
definition T_TRANSID :: int where "T_TRANSID = 39"
definition T_VENDOR_CLASS :: int where "T_VENDOR_CLASS = 40"
definition T_VENDOR :: int where "T_VENDOR = 41"
definition T_ANY :: int where "T_ANY = 42"
definition T_DATA :: int where "T_DATA = 43"
definition T_ENTERPRISE :: int where "T_ENTERPRISE = 44"
definition T_TOPLEVEL_BOOL :: int where "T_TOPLEVEL_BOOL = 45"
definition T_TOPLEVEL_STRING :: int where "T_TOPLEVEL_STRING = 46"
definition T_STRING :: int where "T_STRING = 47"
definition T_INTEGER :: int where "T_INTEGER = 48"
definition T_HEXSTRING :: int where "T_HEXSTRING = 49"
definition T_OPTION_NAME :: int where "T_OPTION_NAME = 50"
definition T_IP_ADDRESS :: int where "T_IP_ADDRESS = 51"

text \<open>A keyword or punctuation terminal, and a terminal carrying its text.\<close>

definition keyword :: "int \<Rightarrow> location \<Rightarrow> symbol_type" where
  "keyword t loc = \<lparr>sym_type = t, sym_value = Empty, sym_location = loc\<rparr>"

definition literal :: "int \<Rightarrow> string \<Rightarrow> location \<Rightarrow> symbol_type" where
  "literal t s loc = \<lparr>sym_type = t, sym_value = String s, sym_location = loc\<rparr>"

text \<open>The span of columns \<open>a\<close> to \<open>b\<close> on line 1, for the examples.\<close>

definition cols :: "nat \<Rightarrow> nat \<Rightarrow> location" where
  "cols a b = \<lparr>loc_begin = (1, a), loc_end = (1, b)\<rparr>"

subsection \<open>The conversion helpers of the context\<close>

text \<open>
  Modelled from the spec: the bodies of \<^verbatim>\<open>EvalContext::convertUint8\<close>,
  \<^verbatim>\<open>convertUint32\<close>, \<^verbatim>\<open>convertOptionCode\<close>,
  \<^verbatim>\<open>convertNestLevelNumber\<close> and \<^verbatim>\<open>convertOptionName\<close> are missing from the
  sources at hand. According to the specification an integer literal is decimal and its
  conversion fails with a ConversionError when the value overflows the target width (8,
  16 or 32 bits); an option name is resolved by a name table and its conversion fails
  when the lookup does.
\<close>

definition digit_value :: "char \<Rightarrow> nat option" where
  "digit_value c =
     (let n = (of_char c :: nat) in if 48 \<le> n \<and> n \<le> 57 then Some (n - 48) else None)"

fun decimal_value :: "string \<Rightarrow> nat \<Rightarrow> nat option" where
  "decimal_value [] acc = Some acc"
| "decimal_value (c # cs) acc =
     (case digit_value c of None \<Rightarrow> None | Some d \<Rightarrow> decimal_value cs (10 * acc + d))"

definition convert_decimal :: "string \<Rightarrow> location \<Rightarrow> parse_error + 'a::len word" where
  "convert_decimal s loc =
     (if s = [] then Inl (ConversionError loc)
      else case decimal_value s 0 of
             None \<Rightarrow> Inl (ConversionError loc)
           | Some n \<Rightarrow>
               if n < 2 ^ LENGTH('a) then Inr (word_of_nat n) else Inl (ConversionError loc))"

definition convert_name ::
  "(string \<times> 16 word) list \<Rightarrow> string \<Rightarrow> location \<Rightarrow> parse_error + 16 word" where
  "convert_name names s loc =
     (case map_of names s of None \<Rightarrow> Inl (ConversionError loc) | Some code \<Rightarrow> Inr code)"

text \<open>A fresh context for one parse, as the specification describes it.\<close>

definition spec_context :: "Universe \<Rightarrow> (string \<times> 16 word) list \<Rightarrow> EvalContext" where
  "spec_context u names =
     \<lparr>universe = u, expression = [],
      convertUint8 = convert_decimal, convertUint32 = convert_decimal,
      convertOptionCode = convert_decimal, convertOptionName = convert_name names,
      convertNestLevelNumber = convert_decimal\<rparr>"


subsection \<open>Example inputs\<close>

text \<open>The terminals of \<^verbatim>\<open>'a' == 'b'\<close>, compiled as a boolean expression.\<close>

definition ex_equal :: "symbol_type list" where
  "ex_equal = [keyword T_TOPLEVEL_BOOL (cols 1 1), literal T_STRING ''a'' (cols 1 4),
     keyword T_EQUAL (cols 5 7), literal T_STRING ''b'' (cols 8 11), keyword T_END (cols 11 11)]"

text \<open>
  The terminals of \<^verbatim>\<open>relay6[0].option[17].exists\<close> and of
  \<^verbatim>\<open>relay4[82].exists\<close>, compiled as boolean expressions, and the parser
  stack after \<^verbatim>\<open>option[60].text\<close> has been shifted.
\<close>

definition ex_relay6_exists :: "symbol_type list" where
  "ex_relay6_exists =
     [keyword T_TOPLEVEL_BOOL (cols 1 1), keyword T_RELAY6 (cols 1 7),
      keyword T_LBRACKET (cols 7 8), literal T_INTEGER ''0'' (cols 8 9),
      keyword T_RBRACKET (cols 9 10), keyword T_DOT (cols 10 11),
      keyword T_OPTION (cols 11 17), keyword T_LBRACKET (cols 17 18),
      literal T_INTEGER ''17'' (cols 18 20), keyword T_RBRACKET (cols 20 21),
      keyword T_DOT (cols 21 22), keyword T_EXISTS (cols 22 28), keyword T_END (cols 28 28)]"

definition ex_relay4_exists :: "symbol_type list" where
  "ex_relay4_exists =
     [keyword T_TOPLEVEL_BOOL (cols 1 1), keyword T_RELAY4 (cols 1 7),
      keyword T_LBRACKET (cols 7 8), literal T_INTEGER ''82'' (cols 8 10),
      keyword T_RBRACKET (cols 10 11), keyword T_DOT (cols 11 12),
      keyword T_EXISTS (cols 12 18), keyword T_END (cols 18 18)]"

definition ex_option_text :: "stack_symbol_type list" where
  "ex_option_text =
     [\<lparr>state = 111, svalue = Empty, slocation = cols 12 16\<rparr>,
      \<lparr>state = 98, svalue = Empty, slocation = cols 11 12\<rparr>,
      \<lparr>state = 86, svalue = Empty, slocation = cols 10 11\<rparr>,
      \<lparr>state = 48, svalue = Uint16 60, slocation = cols 8 10\<rparr>,
      \<lparr>state = 30, svalue = Empty, slocation = cols 7 8\<rparr>,
      \<lparr>state = 6, svalue = Empty, slocation = cols 1 7\<rparr>,
      \<lparr>state = 1, svalue = Empty, slocation = cols 1 1\<rparr>,
      \<lparr>state = 0, svalue = Empty, slocation = default_location\<rparr>]"

subsection \<open>Notions used by the claims\<close>

text \<open>The state on top of the parser stack.\<close>

definition top_state :: "parser_state \<Rightarrow> int" where
  "top_state st = state (yystack st ! 0)"

text \<open>The rules whose action calls \<^verbatim>\<open>ctx.expression.push_back\<close>.\<close>

definition emitting_rules :: "int list" where
  "emitting_rules =
     [8, 9, 10, 11, 12, 13, 14, 15, 16, 17, 18, 19, 20, 21, 22, 23, 24, 25, 26, 27, 28, 29,
      30, 31, 32, 33, 34, 35, 61, 62, 63]"

text \<open>
  The rules whose action rejects the family \<open>u\<close>: the \<^verbatim>\<open>relay6\<close> rules 14,
  23, 27 and the \<^verbatim>\<open>pkt6\<close> rule 26 under \<open>V4\<close>, the \<^verbatim>\<open>relay4\<close>
  rules 13, 22 and the \<^verbatim>\<open>pkt4\<close> rule 25 under \<open>V6\<close>; and the message
  each of them passes to \<^verbatim>\<open>error\<close>.
\<close>

definition gated_rules :: "Universe \<Rightarrow> int list" where
  "gated_rules u = (case u of V4 \<Rightarrow> [14, 23, 26, 27] | V6 \<Rightarrow> [13, 22, 25])"

definition gate_message :: "int \<Rightarrow> string" where
  "gate_message yyn =
     (if yyn = 13 \<or> yyn = 22 then ''relay4 can only be used in DHCPv4.''
      else if yyn = 25 then ''pkt4 can only be used in DHCPv4.''
      else if yyn = 26 then ''pkt6 can only be used in DHCPv6.''
      else ''relay6 can only be used in DHCPv6.'')"

text \<open>
  Parser states met while parsing \<^verbatim>\<open>relay4[82].exists\<close> (all of it shifted),
  \<^verbatim>\<open>vendor[*].exists\<close> (all of it shifted) and \<^verbatim>\<open>vendor[].exists\<close> (the
  bracket shifted), and the terminals of \<^verbatim>\<open>vendor[].exists\<close>, of
  \<^verbatim>\<open>vendor[E].exists\<close> and of \<^verbatim>\<open>vendor-class[E].data[N]\<close>.
\<close>

definition ex_state_relay4 :: parser_state where
  "ex_state_relay4 =
     \<lparr>yystack =
        [\<lparr>state = 115, svalue = Empty, slocation = cols 12 18\<rparr>,
         \<lparr>state = 99, svalue = Empty, slocation = cols 11 12\<rparr>,
         \<lparr>state = 87, svalue = Empty, slocation = cols 10 11\<rparr>,
         \<lparr>state = 49, svalue = Uint16 82, slocation = cols 8 10\<rparr>,
         \<lparr>state = 31, svalue = Empty, slocation = cols 7 8\<rparr>,
         \<lparr>state = 7, svalue = Empty, slocation = cols 1 7\<rparr>,
         \<lparr>state = 1, svalue = Empty, slocation = cols 1 1\<rparr>,
         \<lparr>state = 0, svalue = Empty, slocation = default_location\<rparr>],
      yyla = None, input = [keyword T_END (cols 18 18)], ctx = spec_context V6 []\<rparr>"

definition ex_state_vendor :: parser_state where
  "ex_state_vendor =
     \<lparr>yystack =
        [\<lparr>state = 131, svalue = Empty, slocation = cols 11 17\<rparr>,
         \<lparr>state = 110, svalue = Empty, slocation = cols 10 11\<rparr>,
         \<lparr>state = 97, svalue = Empty, slocation = cols 9 10\<rparr>,
         \<lparr>state = 81, svalue = Uint32 0, slocation = cols 8 9\<rparr>,
         \<lparr>state = 40, svalue = Empty, slocation = cols 7 8\<rparr>,
         \<lparr>state = 15, svalue = Empty, slocation = cols 1 7\<rparr>,
         \<lparr>state = 1, svalue = Empty, slocation = cols 1 1\<rparr>,
         \<lparr>state = 0, svalue = Empty, slocation = default_location\<rparr>],
      yyla = None, input = [keyword T_END (cols 17 17)], ctx = spec_context V6 []\<rparr>"

definition ex_vendor_empty :: "symbol_type list" where
  "ex_vendor_empty =
     [keyword T_TOPLEVEL_BOOL (cols 1 1), keyword T_VENDOR (cols 1 7),
      keyword T_LBRACKET (cols 7 8), keyword T_RBRACKET (cols 8 9), keyword T_DOT (cols 9 10),
      keyword T_EXISTS (cols 10 16), keyword T_END (cols 16 16)]"

definition ex_state_vendor_bracket :: parser_state where
  "ex_state_vendor_bracket =
     \<lparr>yystack =
        [\<lparr>state = 40, svalue = Empty, slocation = cols 7 8\<rparr>,
         \<lparr>state = 15, svalue = Empty, slocation = cols 1 7\<rparr>,
         \<lparr>state = 1, svalue = Empty, slocation = cols 1 1\<rparr>,
         \<lparr>state = 0, svalue = Empty, slocation = default_location\<rparr>],
      yyla = None,
      input = [keyword T_RBRACKET (cols 8 9), keyword T_DOT (cols 9 10),
               keyword T_EXISTS (cols 10 16), keyword T_END (cols 16 16)],
      ctx = spec_context V4 []\<rparr>"

definition ex_vendor_exists :: "string \<Rightarrow> symbol_type list" where
  "ex_vendor_exists E =
     [keyword T_TOPLEVEL_BOOL (cols 1 1), keyword T_VENDOR (cols 1 7),
      keyword T_LBRACKET (cols 7 8), literal T_INTEGER E (cols 8 18),
      keyword T_RBRACKET (cols 18 19), keyword T_DOT (cols 19 20),
      keyword T_EXISTS (cols 20 26), keyword T_END (cols 26 26)]"

definition ex_vendor_class_data :: "string \<Rightarrow> string \<Rightarrow> symbol_type list" where
  "ex_vendor_class_data E N =
     [keyword T_TOPLEVEL_STRING (cols 1 1), keyword T_VENDOR_CLASS (cols 1 13),
      keyword T_LBRACKET (cols 13 14), literal T_INTEGER E (cols 14 18),
      keyword T_RBRACKET (cols 18 19), keyword T_DOT (cols 19 20),
      keyword T_DATA (cols 20 24), keyword T_LBRACKET (cols 24 25),
      literal T_INTEGER N (cols 25 28), keyword T_RBRACKET (cols 28 29),
      keyword T_END (cols 29 29)]"

text \<open>
  The family stored in a vendor or vendor-class token, and the rules of the vendor and
  vendor-class productions.
\<close>

definition token_universe :: "Token \<Rightarrow> Universe option" where
  "token_universe t =
     (case t of TokenVendor u _ _ _ \<Rightarrow> Some u | TokenVendorClass u _ _ _ \<Rightarrow> Some u | _ \<Rightarrow> None)"

definition vendor_rules :: "int list" where
  "vendor_rules = [15, 16, 17, 30, 31, 32, 33, 34]"

text \<open>
  The terminals of \<^verbatim>\<open>pkt4.\<close> cut short, and the parser state that has read the
  end of file after them.
\<close>

definition ex_pkt4_dot :: "symbol_type list" where
  "ex_pkt4_dot =
     [keyword T_TOPLEVEL_STRING (cols 1 1), keyword T_PKT4 (cols 1 5), keyword T_DOT (cols 5 6),
      keyword T_END (cols 6 6)]"

definition ex_state_pkt4_dot :: parser_state where
  "ex_state_pkt4_dot =
     \<lparr>yystack =
        [\<lparr>state = 34, svalue = Empty, slocation = cols 5 6\<rparr>,
         \<lparr>state = 10, svalue = Empty, slocation = cols 1 5\<rparr>,
         \<lparr>state = 2, svalue = Empty, slocation = cols 1 1\<rparr>,
         \<lparr>state = 0, svalue = Empty, slocation = default_location\<rparr>],
      yyla = Some (keyword T_END (cols 6 6)), input = [], ctx = spec_context V4 []\<rparr>"

text \<open>
  The condition under which the loop of \<^verbatim>\<open>yysyntax_error_\<close> counts the terminal
  \<open>yyx\<close> as expected, and the terminals that would have been accepted in a state:
  those with an entry of their own in the action table that is not the error entry.
\<close>

definition acceptable :: "int \<Rightarrow> int \<Rightarrow> bool" where
  "acceptable yyn yyx =
     (yycheck ! nat (yyx + yyn) = yyx \<and> yyx \<noteq> yyterror
      \<and> \<not> yy_table_value_is_error (yytable ! nat (yyx + yyn)))"

definition expected_terminals :: "int \<Rightarrow> int list" where
  "expected_terminals yystate =
     (let yyn = yypact ! nat yystate
      in if yy_pact_value_is_default yyn then []
         else filter (\<lambda>yyx. 0 \<le> yyx + yyn \<and> yyx + yyn \<le> yylast \<and> acceptable yyn yyx)
                [0..yyntokens - 1])"

text \<open>The names of a list joined by \<^verbatim>\<open> or \<close>.\<close>

fun or_list :: "string list \<Rightarrow> string" where
  "or_list [] = []"
| "or_list [a] = a"
| "or_list (a # b # rest) = a @ '' or '' @ or_list (b # rest)"

section \<open>Properties of the driver\<close>

subsection \<open>Unfolding rules and basic facts\<close>

lemmas action_defs = semantic_action_def push_back_def assign_def converted_def error_def
  getUniverse_def

lemmas table_defs = yypact_def yydefact_def yypgoto_def yydefgoto_def yytable_def yycheck_def
  yyr1_def yyr2_def

lemmas const_defs = yyntokens_def yylast_def yyfinal_def yyeof_def yyterror_def yypact_ninf_def
  yytable_ninf_def yy_pact_value_is_default_def yy_table_value_is_error_def

lemmas driver_defs = yynewstate_def yybackup_def yydefault_def yyerrlab_def yyreduce_def
  yy_lr_goto_state_def YYLLOC_DEFAULT_def

lemma semantic_action_emits:
  assumes "semantic_action c yyn stk = Inr (v, c')"
  shows "if yyn \<in> set emitting_rules then \<exists>t. c' = c\<lparr>expression := expression c @ [t]\<rparr>
         else c' = c"
  using assms unfolding action_defs emitting_rules_def
  by (auto split: if_splits Universe.splits sum.splits)

lemma semantic_action_ctx:
  assumes "semantic_action c yyn stk = Inr (v, c')"
  shows "c' = c \<or> (\<exists>t. c' = c\<lparr>expression := expression c @ [t]\<rparr>)"
  using semantic_action_emits [OF assms] by (cases "yyn \<in> set emitting_rules") simp_all

lemma yyreduce_ctx:
  assumes "yyreduce st yyn = Continue st'"
  shows "ctx st' = ctx st \<or> (\<exists>t. ctx st' = (ctx st)\<lparr>expression := expression (ctx st) @ [t]\<rparr>)"
  using assms semantic_action_ctx [of "ctx st" yyn "yystack st"]
  by (auto simp: yyreduce_def Let_def split: sum.splits prod.splits)

lemma yydefault_ctx:
  assumes "yydefault st = Continue st'"
  shows "ctx st' = ctx st \<or> (\<exists>t. ctx st' = (ctx st)\<lparr>expression := expression (ctx st) @ [t]\<rparr>)"
  using assms yyreduce_ctx [of st _ st']
  by (auto simp: yydefault_def yyerrlab_def Let_def split: if_splits)

lemma yybackup_ctx:
  assumes "yybackup st = Continue st'"
  shows "ctx st' = ctx st \<or> (\<exists>t. ctx st' = (ctx st)\<lparr>expression := expression (ctx st) @ [t]\<rparr>)"
proof -
  obtain la rest where lr: "(case yyla st of None \<Rightarrow> yylex (input st) | Some la \<Rightarrow> (la, input st)) = (la, rest)"
    by (cases "case yyla st of None \<Rightarrow> yylex (input st) | Some la \<Rightarrow> (la, input st)")
  let ?st = "st\<lparr>yyla := Some la, input := rest\<rparr>"
  have c: "ctx ?st = ctx st" by simp
  from assms lr show ?thesis
    using yydefault_ctx [of st st'] yydefault_ctx [of ?st st'] yyreduce_ctx [of ?st _ st']
    by (auto simp: yybackup_def yyerrlab_def Let_def split: if_splits)
qed

lemma yynewstate_ctx:
  assumes "yynewstate st = Continue st'"
  shows "ctx st' = ctx st \<or> (\<exists>t. ctx st' = (ctx st)\<lparr>expression := expression (ctx st) @ [t]\<rparr>)"
  using assms yybackup_ctx [of st st'] by (auto simp: yynewstate_def split: if_splits)

lemma yynewstate_Return:
  assumes "yynewstate st = Return c"
  shows "c = ctx st"
  using assms
  by (auto simp: yynewstate_def yybackup_def yydefault_def yyerrlab_def yyreduce_def Let_def
      split: if_splits sum.splits prod.splits)

lemma yyrun_ctx:
  assumes "yyrun n st = Continue st'"
  shows "\<exists>ts. length ts \<le> n \<and> ctx st' = (ctx st)\<lparr>expression := expression (ctx st) @ ts\<rparr>"
  using assms
proof (induction n arbitrary: st)
  case 0
  then show ?case by simp
next
  case (Suc n)
  then obtain st1 where s1: "yynewstate st = Continue st1" and r: "yyrun n st1 = Continue st'"
    by (auto split: control.splits)
  from Suc.IH [OF r] obtain ts where ts: "length ts \<le> n"
    "ctx st' = (ctx st1)\<lparr>expression := expression (ctx st1) @ ts\<rparr>" by blast
  from yynewstate_ctx [OF s1] show ?case
  proof
    assume "ctx st1 = ctx st"
    with ts have "length ts \<le> Suc n \<and> ctx st' = (ctx st)\<lparr>expression := expression (ctx st) @ ts\<rparr>"
      by simp
    then show ?thesis by blast
  next
    assume "\<exists>t. ctx st1 = (ctx st)\<lparr>expression := expression (ctx st) @ [t]\<rparr>"
    then obtain t where "ctx st1 = (ctx st)\<lparr>expression := expression (ctx st) @ [t]\<rparr>" by blast
    with ts have "length (t # ts) \<le> Suc n
        \<and> ctx st' = (ctx st)\<lparr>expression := expression (ctx st) @ (t # ts)\<rparr>"
      by simp
    then show ?thesis by blast
  qed
qed

lemma yyloop_Continue: "yynewstate st = Continue st' \<Longrightarrow> yyloop st = yyloop st'"
  by (subst yyloop.simps) simp

lemma yyloop_Throw: "yynewstate st = Throw e \<Longrightarrow> yyloop st = Some (Inl e)"
  by (subst yyloop.simps) simp

lemma yyloop_Return: "yynewstate st = Return c \<Longrightarrow> yyloop st = Some (Inr c)"
  by (subst yyloop.simps) simp

lemma yyloop_yyrun:
  "yyrun n st = Continue st' \<Longrightarrow> yyloop st = yyloop st'"
  "yyrun n st = Throw e \<Longrightarrow> yyloop st = Some (Inl e)"
  "yyrun n st = Return c \<Longrightarrow> yyloop st = Some (Inr c)"
  by (induction n arbitrary: st; auto simp: yyloop_Continue yyloop_Throw yyloop_Return split: control.splits)+

lemma yyloop_returns:
  assumes "yyloop st = Some r"
  shows "\<exists>n. yyrun n st = (case r of Inl e \<Rightarrow> Throw e | Inr c \<Rightarrow> Return c)"
  using assms
proof (induction st r rule: yyloop.raw_induct [rotated 1, consumes 1, case_names step])
  case (step yyloop' st r)
  show ?case
  proof (cases "yynewstate st")
    case (Return c)
    with step(2) have "yyrun (Suc 0) st = (case r of Inl e \<Rightarrow> Throw e | Inr c \<Rightarrow> Return c)"
      by auto
    then show ?thesis by blast
  next
    case (Throw e)
    with step(2) have "yyrun (Suc 0) st = (case r of Inl e \<Rightarrow> Throw e | Inr c \<Rightarrow> Return c)"
      by auto
    then show ?thesis by blast
  next
    case (Continue st')
    with step(2) have "yyloop' st' = Some r" by simp
    from step(1) [OF this] obtain n
      where "yyrun n st' = (case r of Inl e \<Rightarrow> Throw e | Inr c \<Rightarrow> Return c)" by blast
    with Continue have "yyrun (Suc n) st = (case r of Inl e \<Rightarrow> Throw e | Inr c \<Rightarrow> Return c)"
      by simp
    then show ?thesis by blast
  qed
qed

lemmas terminal_defs = T_END_def T_LPAREN_def T_RPAREN_def T_NOT_def T_AND_def T_OR_def T_EQUAL_def
  T_OPTION_def T_RELAY4_def T_RELAY6_def T_PEERADDR_def T_LINKADDR_def T_LBRACKET_def
  T_RBRACKET_def T_DOT_def T_TEXT_def T_HEX_def T_EXISTS_def T_PKT_def T_IFACE_def T_SRC_def
  T_DST_def T_LEN_def T_PKT4_def T_MAC_def T_HLEN_def T_HTYPE_def T_CIADDR_def T_GIADDR_def
  T_YIADDR_def T_SIADDR_def T_SUBSTRING_def T_ALL_def T_COMA_def T_CONCAT_def T_PKT6_def
  T_MSGTYPE_def T_TRANSID_def T_VENDOR_CLASS_def T_VENDOR_def T_ANY_def T_DATA_def
  T_ENTERPRISE_def T_TOPLEVEL_BOOL_def T_TOPLEVEL_STRING_def T_STRING_def T_INTEGER_def
  T_HEXSTRING_def T_OPTION_NAME_def T_IP_ADDRESS_def keyword_def literal_def cols_def

lemmas run_defs = driver_defs const_defs table_defs action_defs Let_def

lemma yyrun_Return_ctx:
  assumes "yyrun n st = Return c"
  shows "\<exists>ts. c = (ctx st)\<lparr>expression := expression (ctx st) @ ts\<rparr>"
  using assms
proof (induction n arbitrary: st)
  case 0
  then show ?case by simp
next
  case (Suc n)
  show ?case
  proof (cases "yynewstate st")
    case (Return c1)
    with Suc.prems yynewstate_Return [OF Return] have "c = (ctx st)\<lparr>expression := expression (ctx st) @ []\<rparr>"
      by simp
    then show ?thesis by blast
  next
    case (Throw e)
    with Suc.prems show ?thesis by simp
  next
    case (Continue st1)
    with Suc.prems have "yyrun n st1 = Return c" by simp
    from Suc.IH [OF this] obtain ts where ts: "c = (ctx st1)\<lparr>expression := expression (ctx st1) @ ts\<rparr>"
      by blast
    from yynewstate_ctx [OF Continue] show ?thesis
    proof
      assume "ctx st1 = ctx st"
      with ts show ?thesis by auto
    next
      assume "\<exists>t. ctx st1 = (ctx st)\<lparr>expression := expression (ctx st) @ [t]\<rparr>"
      then obtain t where "ctx st1 = (ctx st)\<lparr>expression := expression (ctx st) @ [t]\<rparr>" by blast
      with ts have "c = (ctx st)\<lparr>expression := expression (ctx st) @ (t # ts)\<rparr>" by simp
      then show ?thesis by blast
    qed
  qed
qed

section \<open>The claims\<close>

subsection \<open>C9: the program is append-only\<close>

text \<open>
  C9. Throughout a parse the token program of the context is append-only. After any
  number \<open>n\<close> of passes of the driver from any parser state, the context differs from
  the one at the start only by tokens pushed onto the end of the expression, at most
  one per pass; nothing emitted earlier is removed, reordered or changed, and the other
  members of the context are untouched. The context that \<^verbatim>\<open>parse\<close> leaves on
  acceptance is the initial one with tokens appended.
\<close>

theorem expression_append_only:
  "(yyrun n st = Continue st' \<longrightarrow>
      (\<exists>ts. length ts \<le> n \<and> ctx st' = (ctx st)\<lparr>expression := expression (ctx st) @ ts\<rparr>))
   \<and> (parse c toks = Some (Inr c') \<longrightarrow> (\<exists>ts. c' = c\<lparr>expression := expression c @ ts\<rparr>))"
proof (intro conjI impI)
  assume "yyrun n st = Continue st'"
  then show "\<exists>ts. length ts \<le> n \<and> ctx st' = (ctx st)\<lparr>expression := expression (ctx st) @ ts\<rparr>"
    by (rule yyrun_ctx)
next
  assume "parse c toks = Some (Inr c')"
  then have "yyloop (initial_state c toks) = Some (Inr c')"
    by (simp add: parse_def initial_state_def)
  from yyloop_returns [OF this] obtain k where "yyrun k (initial_state c toks) = Return c'"
    by auto
  from yyrun_Return_ctx [OF this] show "\<exists>ts. c' = c\<lparr>expression := expression c @ ts\<rparr>"
    by (simp add: initial_state_def)
qed

theorem expression_append_only_witness:
  "(\<exists>st'. yyrun 3 (initial_state (spec_context V4 []) ex_equal) = Continue st'
      \<and> (\<exists>ts. length ts \<le> 3
            \<and> ctx st' = (spec_context V4 [])\<lparr>expression := expression (spec_context V4 []) @ ts\<rparr>))
   \<and> (\<exists>c'. parse (spec_context V4 []) ex_equal = Some (Inr c')
      \<and> (\<exists>ts. c' = (spec_context V4 [])\<lparr>expression := expression (spec_context V4 []) @ ts\<rparr>))"
proof -
  obtain st' where r: "yyrun 3 (initial_state (spec_context V4 []) ex_equal) = Continue st'"
    by (simp add: eval_nat_numeral initial_state_def spec_context_def ex_equal_def terminal_defs run_defs)
  obtain c' where p: "parse (spec_context V4 []) ex_equal = Some (Inr c')"
    by (simp add: parse_def yyloop.simps spec_context_def ex_equal_def terminal_defs run_defs)
  from r p expression_append_only [of 3 "initial_state (spec_context V4 []) ex_equal" st'
      "spec_context V4 []" ex_equal c']
  show ?thesis by (simp add: initial_state_def)
qed

lemmas example_defs = ex_equal_def ex_relay6_exists_def ex_relay4_exists_def ex_option_text_def
  ex_state_relay4_def ex_state_vendor_def ex_vendor_empty_def ex_state_vendor_bracket_def
  ex_vendor_exists_def ex_vendor_class_data_def spec_context_def initial_state_def


subsection \<open>C3: tokens appended by a reduction\<close>

text \<open>
  C3 as stated fails: the rule 39 (\<^verbatim>\<open>option_repr_type: "text"\<close>), reduced after
  \<^verbatim>\<open>option[60].text\<close>, only sets the semantic value of its left-hand side and
  appends no token.
\<close>

theorem reduction_without_token_counterexample:
  "semantic_action (spec_context V4 []) 39 ex_option_text = Inr (ReprVal TEXTUAL, spec_context V4 [])"
  by (simp add: action_defs)

text \<open>
  C3, amended. A completed production appends at most one token, at the moment it is
  reduced (so that the tokens of its parts come first): exactly one token when its rule
  is one of 8 to 35 or 61 to 63, and none when it is one of the other rules (1 to 7 and
  36 to 60, which only compute a semantic value or group). A reduction that raises an
  error appends nothing.
\<close>

theorem reduction_emits_at_most_one:
  assumes "yyreduce st yyn = Continue st'"
  shows "if yyn \<in> set emitting_rules
         then \<exists>t. ctx st' = (ctx st)\<lparr>expression := expression (ctx st) @ [t]\<rparr>
         else ctx st' = ctx st"
proof -
  from assms obtain v c' where a: "semantic_action (ctx st) yyn (yystack st) = Inr (v, c')"
    and c: "ctx st' = c'"
    by (auto simp: yyreduce_def Let_def split: sum.splits prod.splits)
  from semantic_action_emits [OF a] c show ?thesis by simp
qed

theorem reduction_emits_at_most_one_witness:
  "yyreduce (initial_state (spec_context V4 []) [] \<lparr>yystack := ex_option_text\<rparr>) 39
     = Continue (initial_state (spec_context V4 []) []
                  \<lparr>yystack := \<lparr>state = 114, svalue = ReprVal TEXTUAL, slocation = cols 12 16\<rparr>
                                # tl ex_option_text\<rparr>)
   \<and> 39 \<notin> set emitting_rules"
proof -
  have r: "yyreduce (initial_state (spec_context V4 []) [] \<lparr>yystack := ex_option_text\<rparr>) 39
     = Continue (initial_state (spec_context V4 []) []
                  \<lparr>yystack := \<lparr>state = 114, svalue = ReprVal TEXTUAL, slocation = cols 12 16\<rparr>
                                # tl ex_option_text\<rparr>)"
    by (simp add: example_defs run_defs cols_def)
  from reduction_emits_at_most_one [OF r] r show ?thesis
    by (simp add: emitting_rules_def)
qed

subsection \<open>C1: the family gate\<close>

lemma gated_action:
  assumes "yyn \<in> set (gated_rules (universe c))"
  shows "semantic_action c yyn stk
           = Inl (EvalParseError (slocation (stk ! nat (yyr2 ! nat yyn - 1))) (gate_message yyn))"
  using assms
  by (cases "universe c"; simp add: gated_rules_def; elim disjE;
      simp add: action_defs gate_message_def yyr2_def)

lemma gated_reduce:
  assumes "yyn \<in> set (gated_rules (universe (ctx st)))"
  shows "yyreduce st yyn
           = Throw (EvalParseError (slocation (yystack st ! nat (yyr2 ! nat yyn - 1)))
                      (gate_message yyn))"
  using gated_action [OF assms] by (simp add: yyreduce_def Let_def)







subsection \<open>C8: the message of the DHCPv4-only constructs\<close>

text \<open>
  C8 as stated fails: compiling \<^verbatim>\<open>relay4[82].exists\<close> under \<open>V6\<close> reports
  \<^verbatim>\<open>relay4 can only be used in DHCPv4.\<close>, not the text
  \<^verbatim>\<open>relay4/pkt4 can only be used in DHCPv4.\<close>
\<close>

theorem relay4_message_counterexample:
  "compile (spec_context V6 []) ex_relay4_exists
     = Some (Inl (EvalParseError (cols 1 7) ''relay4 can only be used in DHCPv4.''))
   \<and> compile (spec_context V6 []) ex_relay4_exists
     \<noteq> Some (Inl (EvalParseError (cols 1 7) ''relay4/pkt4 can only be used in DHCPv4.''))"
  by (simp add: compile_def parse_def yyloop.simps example_defs terminal_defs run_defs
      convert_decimal_def digit_value_def)

text \<open>
  C8, amended. Whenever a \<^verbatim>\<open>relay4\<close> production (rules 13 and 22) is reduced
  while the family is \<open>V6\<close>, the error carries the message
  \<^verbatim>\<open>relay4 can only be used in DHCPv4.\<close>; for the \<^verbatim>\<open>pkt4\<close> production
  (rule 25) it is \<^verbatim>\<open>pkt4 can only be used in DHCPv4.\<close> The span reported is that
  of the \<^verbatim>\<open>relay4\<close> or \<^verbatim>\<open>pkt4\<close> keyword (the first symbol of the
  production), as the compilation of \<^verbatim>\<open>relay4[n].exists\<close> and of
  \<^verbatim>\<open>pkt4.mac\<close> shows for every literal, every span and every continuation of the
  input.
\<close>

theorem relay4_pkt4_message:
  "(universe (ctx st) = V6 \<longrightarrow>
      yyreduce st 13
        = Throw (EvalParseError (slocation (yystack st ! 5)) ''relay4 can only be used in DHCPv4.'')
      \<and> yyreduce st 22
        = Throw (EvalParseError (slocation (yystack st ! 5)) ''relay4 can only be used in DHCPv4.'')
      \<and> yyreduce st 25
        = Throw (EvalParseError (slocation (yystack st ! 2)) ''pkt4 can only be used in DHCPv4.''))
   \<and> (universe c = V6 \<and> convertOptionCode c n l3 = Inr code \<longrightarrow>
        compile c ([keyword T_TOPLEVEL_BOOL l0, keyword T_RELAY4 l1, keyword T_LBRACKET l2,
                    literal T_INTEGER n l3, keyword T_RBRACKET l4, keyword T_DOT l5,
                    keyword T_EXISTS l6] @ rest)
          = Some (Inl (EvalParseError l1 ''relay4 can only be used in DHCPv4.'')))
   \<and> (universe c = V6 \<longrightarrow>
        compile c ([keyword T_TOPLEVEL_STRING m0, keyword T_PKT4 m1, keyword T_DOT m2,
                    keyword T_MAC m3] @ rest')
          = Some (Inl (EvalParseError m1 ''pkt4 can only be used in DHCPv4.'')))"
proof (intro conjI impI)
  assume u: "universe (ctx st) = V6"
  have g: "13 \<in> set (gated_rules V6)" "22 \<in> set (gated_rules V6)" "25 \<in> set (gated_rules V6)"
    by (simp_all add: gated_rules_def)
  from g u gated_reduce [of 13 st] gated_reduce [of 22 st] gated_reduce [of 25 st]
  show "yyreduce st 13
        = Throw (EvalParseError (slocation (yystack st ! 5)) ''relay4 can only be used in DHCPv4.'')"
    and "yyreduce st 22
        = Throw (EvalParseError (slocation (yystack st ! 5)) ''relay4 can only be used in DHCPv4.'')"
    and "yyreduce st 25
        = Throw (EvalParseError (slocation (yystack st ! 2)) ''pkt4 can only be used in DHCPv4.'')"
    by (simp_all add: gate_message_def yyr2_def)
next
  assume "universe c = V6 \<and> convertOptionCode c n l3 = Inr code"
  then show "compile c ([keyword T_TOPLEVEL_BOOL l0, keyword T_RELAY4 l1, keyword T_LBRACKET l2,
                    literal T_INTEGER n l3, keyword T_RBRACKET l4, keyword T_DOT l5,
                    keyword T_EXISTS l6] @ rest)
          = Some (Inl (EvalParseError l1 ''relay4 can only be used in DHCPv4.''))"
    by (simp add: compile_def parse_def yyloop.simps terminal_defs run_defs)
next
  assume "universe c = V6"
  then show "compile c ([keyword T_TOPLEVEL_STRING m0, keyword T_PKT4 m1, keyword T_DOT m2,
                    keyword T_MAC m3] @ rest')
          = Some (Inl (EvalParseError m1 ''pkt4 can only be used in DHCPv4.''))"
    by (simp add: compile_def parse_def yyloop.simps terminal_defs run_defs)
qed

theorem relay4_pkt4_message_witness:
  "universe (ctx ex_state_relay4) = V6
   \<and> yyreduce ex_state_relay4 13
        = Throw (EvalParseError (cols 1 7) ''relay4 can only be used in DHCPv4.'')
   \<and> convertOptionCode (spec_context V6 []) ''82'' (cols 8 10) = Inr 82
   \<and> compile (spec_context V6 [])
        ([keyword T_TOPLEVEL_BOOL (cols 1 1), keyword T_RELAY4 (cols 1 7),
          keyword T_LBRACKET (cols 7 8), literal T_INTEGER ''82'' (cols 8 10),
          keyword T_RBRACKET (cols 10 11), keyword T_DOT (cols 11 12),
          keyword T_EXISTS (cols 12 18)] @ [keyword T_END (cols 18 18)])
        = Some (Inl (EvalParseError (cols 1 7) ''relay4 can only be used in DHCPv4.''))
   \<and> compile (spec_context V6 [])
        ([keyword T_TOPLEVEL_STRING (cols 1 1), keyword T_PKT4 (cols 1 5),
          keyword T_DOT (cols 5 6), keyword T_MAC (cols 6 9)] @ [keyword T_END (cols 9 9)])
        = Some (Inl (EvalParseError (cols 1 5) ''pkt4 can only be used in DHCPv4.''))"
proof -
  have u: "universe (ctx ex_state_relay4) = V6" "universe (spec_context V6 []) = V6"
    by (simp_all add: ex_state_relay4_def spec_context_def)
  have l: "slocation (yystack ex_state_relay4 ! 5) = cols 1 7"
    by (simp add: ex_state_relay4_def)
  have c: "convertOptionCode (spec_context V6 []) ''82'' (cols 8 10) = Inr 82"
    by (simp add: spec_context_def convert_decimal_def digit_value_def)
  from relay4_pkt4_message [of ex_state_relay4 "spec_context V6 []" "''82''" "cols 8 10" 82
      "cols 1 1" "cols 1 7" "cols 7 8" "cols 10 11" "cols 11 12" "cols 12 18"
      "[keyword T_END (cols 18 18)]" "cols 1 1" "cols 1 5" "cols 5 6" "cols 6 9"
      "[keyword T_END (cols 9 9)]"]
    u l c
  show ?thesis by simp
qed

subsection \<open>C10: vendor constructs are not gated\<close>

lemma vendor_action:
  assumes "yyn \<in> set vendor_rules"
    and "yyn = 34 \<longrightarrow> (\<exists>i. convertUint8 c (as_string (svalue (stk ! 1))) (slocation (stk ! 1)) = Inr i)"
  shows "\<exists>t. semantic_action c yyn stk = push_back c t \<and> token_universe t = Some (universe c)"
proof (cases "yyn = 34")
  case True
  with assms(2) obtain i
    where "convertUint8 c (as_string (svalue (stk ! 1))) (slocation (stk ! 1)) = Inr i" by blast
  with True show ?thesis
    by (intro exI [of _ "TokenVendorClass (universe c) (as_uint32 (svalue (stk ! 6)))
          (Field DATA) (Some i)"]) (simp add: semantic_action_def getUniverse_def token_universe_def)
next
  case False
  with assms(1) show ?thesis
    apply (simp add: vendor_rules_def)
    apply (elim disjE; simp add: semantic_action_def getUniverse_def)
          apply (rule exI, rule conjI, rule refl, simp add: token_universe_def)+
    done
qed

text \<open>
  C10. No vendor or vendor-class production is gated on the family. Under either family
  the reduction of each of the rules 15, 16, 17, 30, 31, 32, 33 and 34 (exists,
  enterprise, sub-option and data forms) succeeds and appends one token that stores the
  family of the context (for rule 34 provided the index converts), and the compilation
  of \<^verbatim>\<open>vendor[*].exists\<close>, \<^verbatim>\<open>vendor-class[*].exists\<close>,
  \<^verbatim>\<open>vendor.enterprise\<close>, \<^verbatim>\<open>vendor-class.enterprise\<close> and
  \<^verbatim>\<open>vendor-class[*].data\<close> yields that token for every family.
\<close>

theorem vendor_not_gated:
  "(yyn \<in> set vendor_rules
      \<and> (yyn = 34 \<longrightarrow>
            (\<exists>i. convertUint8 (ctx st) (as_string (svalue (yystack st ! 1)))
                   (slocation (yystack st ! 1)) = Inr i)) \<longrightarrow>
      (\<exists>t st'. yyreduce st yyn = Continue st'
          \<and> ctx st' = (ctx st)\<lparr>expression := expression (ctx st) @ [t]\<rparr>
          \<and> token_universe t = Some (universe (ctx st))))
   \<and> compile c [keyword T_TOPLEVEL_BOOL l0, keyword T_VENDOR l1, keyword T_LBRACKET l2,
                  keyword T_ANY l3, keyword T_RBRACKET l4, keyword T_DOT l5,
                  keyword T_EXISTS l6, keyword T_END l7]
       = Some (Inr (expression c @ [TokenVendor (universe c) 0 (Repr EXISTS) None]))
   \<and> compile c [keyword T_TOPLEVEL_BOOL l0, keyword T_VENDOR_CLASS l1, keyword T_LBRACKET l2,
                  keyword T_ANY l3, keyword T_RBRACKET l4, keyword T_DOT l5,
                  keyword T_EXISTS l6, keyword T_END l7]
       = Some (Inr (expression c @ [TokenVendorClass (universe c) 0 (Repr EXISTS) None]))
   \<and> compile c [keyword T_TOPLEVEL_STRING l0, keyword T_VENDOR l1, keyword T_DOT l2,
                  keyword T_ENTERPRISE l3, keyword T_END l4]
       = Some (Inr (expression c @ [TokenVendor (universe c) 0 (Field ENTERPRISE_ID) None]))
   \<and> compile c [keyword T_TOPLEVEL_STRING l0, keyword T_VENDOR_CLASS l1, keyword T_DOT l2,
                  keyword T_ENTERPRISE l3, keyword T_END l4]
       = Some (Inr (expression c @ [TokenVendorClass (universe c) 0 (Field ENTERPRISE_ID) None]))
   \<and> compile c [keyword T_TOPLEVEL_STRING l0, keyword T_VENDOR_CLASS l1, keyword T_LBRACKET l2,
                  keyword T_ANY l3, keyword T_RBRACKET l4, keyword T_DOT l5,
                  keyword T_DATA l6, keyword T_END l7]
       = Some (Inr (expression c @ [TokenVendorClass (universe c) 0 (Field DATA) (Some 0)]))"
proof (intro conjI impI)
  assume a: "yyn \<in> set vendor_rules
      \<and> (yyn = 34 \<longrightarrow>
            (\<exists>i. convertUint8 (ctx st) (as_string (svalue (yystack st ! 1)))
                   (slocation (yystack st ! 1)) = Inr i))"
  from vendor_action [of yyn "ctx st" "yystack st"] a obtain t
    where t: "semantic_action (ctx st) yyn (yystack st) = push_back (ctx st) t"
      "token_universe t = Some (universe (ctx st))" by blast
  then show "\<exists>t st'. yyreduce st yyn = Continue st'
          \<and> ctx st' = (ctx st)\<lparr>expression := expression (ctx st) @ [t]\<rparr>
          \<and> token_universe t = Some (universe (ctx st))"
    by (auto simp: yyreduce_def push_back_def Let_def)
qed (simp_all add: compile_def parse_def yyloop.simps terminal_defs run_defs)

theorem vendor_not_gated_witness:
  "16 \<in> set vendor_rules
   \<and> (\<exists>t st'. yyreduce ex_state_vendor 16 = Continue st'
          \<and> ctx st' = (ctx ex_state_vendor)\<lparr>expression := expression (ctx ex_state_vendor) @ [t]\<rparr>
          \<and> token_universe t = Some V6)
   \<and> compile (spec_context V4 [])
         [keyword T_TOPLEVEL_BOOL (cols 1 1), keyword T_VENDOR (cols 1 7),
          keyword T_LBRACKET (cols 7 8), keyword T_ANY (cols 8 9), keyword T_RBRACKET (cols 9 10),
          keyword T_DOT (cols 10 11), keyword T_EXISTS (cols 11 17), keyword T_END (cols 17 17)]
       = Some (Inr [TokenVendor V4 0 (Repr EXISTS) None])
   \<and> compile (spec_context V6 [])
         [keyword T_TOPLEVEL_BOOL (cols 1 1), keyword T_VENDOR (cols 1 7),
          keyword T_LBRACKET (cols 7 8), keyword T_ANY (cols 8 9), keyword T_RBRACKET (cols 9 10),
          keyword T_DOT (cols 10 11), keyword T_EXISTS (cols 11 17), keyword T_END (cols 17 17)]
       = Some (Inr [TokenVendor V6 0 (Repr EXISTS) None])"
proof -
  have v: "16 \<in> set vendor_rules" by (simp add: vendor_rules_def)
  have u: "universe (ctx ex_state_vendor) = V6" "universe (spec_context V4 []) = V4"
    "universe (spec_context V6 []) = V6" "expression (spec_context V4 []) = []"
    "expression (spec_context V6 []) = []"
    by (simp_all add: ex_state_vendor_def spec_context_def)
  from v u
    vendor_not_gated [of 16 ex_state_vendor "spec_context V4 []" "cols 1 1" "cols 1 7" "cols 7 8"
      "cols 8 9" "cols 9 10" "cols 10 11" "cols 11 17" "cols 17 17"]
    vendor_not_gated [of 16 ex_state_vendor "spec_context V6 []" "cols 1 1" "cols 1 7" "cols 7 8"
      "cols 8 9" "cols 9 10" "cols 10 11" "cols 11 17" "cols 17 17"]
  show ?thesis by simp
qed

subsection \<open>C7: the enterprise id\<close>

text \<open>
  C7 as stated fails: the enterprise id cannot be left empty. Compiling
  \<^verbatim>\<open>vendor[].exists\<close> is a syntax error at the closing bracket.
\<close>

theorem empty_enterprise_id_counterexample:
  "compile (spec_context V4 []) ex_vendor_empty
     = Some (Inl (EvalParseError (cols 8 9) ''syntax error, unexpected ], expecting * or integer''))"
  by code_simp

lemma enterprise_id_lookahead_table:
  "list_all (\<lambda>i. yycheck ! nat i = i + 22 \<longrightarrow> i = 20 \<or> i = 26) [0..179]"
  by code_simp

lemma enterprise_id_check:
  assumes "0 \<le> t - 22" "t - 22 \<le> 179" "yycheck ! nat (t - 22) = t"
  shows "t = 42 \<or> t = 48"
proof -
  from assms(1,2) have "t - 22 \<in> set [0..179]" by simp
  with enterprise_id_lookahead_table
  have "yycheck ! nat (t - 22) = (t - 22) + 22 \<longrightarrow> t - 22 = 20 \<or> t - 22 = 26"
    unfolding list_all_iff by (rule bspec)
  with assms(3) show ?thesis by auto
qed

lemma enterprise_id_states:
  assumes "s \<in> {38, 40, 92, 93}"
  shows "yypact ! nat s = - 22" "yydefact ! nat s = 0" "s \<noteq> yyfinal"
  using assms by (auto simp: yypact_def yydefact_def yyfinal_def)

lemma enterprise_id_syntax_error:
  assumes s: "top_state st \<in> {38, 40, 92, 93}"
    and p: "pending st = la # rest"
    and t: "sym_type la \<noteq> T_ANY" "sym_type la \<noteq> T_INTEGER"
  shows "yynewstate st
           = Throw (EvalParseError (sym_location la) (yysyntax_error (top_state st) (Some la)))"
proof -
  from p have lr: "(case yyla st of None \<Rightarrow> yylex (input st) | Some la \<Rightarrow> (la, input st)) = (la, rest)"
    by (cases "yyla st"; cases "input st"; simp add: pending_def)
  have c: "\<not> (0 \<le> sym_type la - 22 \<and> sym_type la - 22 \<le> 179
             \<and> yycheck ! nat (sym_type la - 22) = sym_type la)"
    using enterprise_id_check [of "sym_type la"] t by (auto simp: T_ANY_def T_INTEGER_def)
  from enterprise_id_states [OF s [unfolded top_state_def]] lr c show ?thesis
    by (auto simp: yynewstate_def yybackup_def yydefault_def yyerrlab_def Let_def top_state_def
        yy_pact_value_is_default_def yypact_ninf_def yylast_def)
qed

text \<open>
  C7, amended. In a vendor or vendor-class bracket the enterprise id is either an
  INTEGER, converted by \<^verbatim>\<open>convertUint32\<close> (a conversion error ends the
  compilation), or the wildcard \<^verbatim>\<open>*\<close>, which gives the enterprise id 0. It
  cannot be omitted: in the four states that follow the opening bracket (38, 40, 92 and
  93) every terminal other than INTEGER and \<^verbatim>\<open>*\<close> ends the parse with a syntax
  error at that terminal.
\<close>

theorem enterprise_id_forms:
  "(convertUint32 c E le = Inr e \<longrightarrow>
      compile c [keyword T_TOPLEVEL_BOOL l0, keyword T_VENDOR l1, keyword T_LBRACKET l2,
                 literal T_INTEGER E le, keyword T_RBRACKET l4, keyword T_DOT l5,
                 keyword T_EXISTS l6, keyword T_END l7]
        = Some (Inr (expression c @ [TokenVendor (universe c) e (Repr EXISTS) None]))
      \<and> compile c [keyword T_TOPLEVEL_BOOL l0, keyword T_VENDOR_CLASS l1, keyword T_LBRACKET l2,
                 literal T_INTEGER E le, keyword T_RBRACKET l4, keyword T_DOT l5,
                 keyword T_EXISTS l6, keyword T_END l7]
        = Some (Inr (expression c @ [TokenVendorClass (universe c) e (Repr EXISTS) None])))
   \<and> (convertUint32 c E le = Inl err \<longrightarrow>
      compile c [keyword T_TOPLEVEL_BOOL l0, keyword T_VENDOR l1, keyword T_LBRACKET l2,
                 literal T_INTEGER E le, keyword T_RBRACKET l4, keyword T_DOT l5,
                 keyword T_EXISTS l6, keyword T_END l7]
        = Some (Inl err))
   \<and> compile c [keyword T_TOPLEVEL_BOOL l0, keyword T_VENDOR l1, keyword T_LBRACKET l2,
                 keyword T_ANY l3, keyword T_RBRACKET l4, keyword T_DOT l5,
                 keyword T_EXISTS l6, keyword T_END l7]
        = Some (Inr (expression c @ [TokenVendor (universe c) 0 (Repr EXISTS) None]))
   \<and> compile c [keyword T_TOPLEVEL_BOOL l0, keyword T_VENDOR_CLASS l1, keyword T_LBRACKET l2,
                 keyword T_ANY l3, keyword T_RBRACKET l4, keyword T_DOT l5,
                 keyword T_EXISTS l6, keyword T_END l7]
        = Some (Inr (expression c @ [TokenVendorClass (universe c) 0 (Repr EXISTS) None]))
   \<and> (top_state st \<in> {38, 40, 92, 93} \<and> pending st = la # rest
        \<and> sym_type la \<noteq> T_ANY \<and> sym_type la \<noteq> T_INTEGER \<longrightarrow>
      yyloop st
        = Some (Inl (EvalParseError (sym_location la) (yysyntax_error (top_state st) (Some la)))))"
proof (intro conjI impI)
  assume "top_state st \<in> {38, 40, 92, 93} \<and> pending st = la # rest
        \<and> sym_type la \<noteq> T_ANY \<and> sym_type la \<noteq> T_INTEGER"
  then have "yynewstate st
           = Throw (EvalParseError (sym_location la) (yysyntax_error (top_state st) (Some la)))"
    using enterprise_id_syntax_error [of st la rest] by simp
  then show "yyloop st
        = Some (Inl (EvalParseError (sym_location la) (yysyntax_error (top_state st) (Some la))))"
    by (rule yyloop_Throw)
qed (simp_all add: compile_def parse_def yyloop.simps terminal_defs run_defs)

theorem enterprise_id_forms_witness:
  "convertUint32 (spec_context V4 []) ''4491'' (cols 8 18) = Inr 4491
   \<and> compile (spec_context V4 []) (ex_vendor_exists ''4491'')
        = Some (Inr [TokenVendor V4 4491 (Repr EXISTS) None])
   \<and> convertUint32 (spec_context V4 []) ''4294967296'' (cols 8 18)
        = Inl (ConversionError (cols 8 18))
   \<and> compile (spec_context V4 []) (ex_vendor_exists ''4294967296'')
        = Some (Inl (ConversionError (cols 8 18)))
   \<and> top_state ex_state_vendor_bracket \<in> {38, 40, 92, 93}
   \<and> pending ex_state_vendor_bracket
        = keyword T_RBRACKET (cols 8 9) # [keyword T_DOT (cols 9 10),
               keyword T_EXISTS (cols 10 16), keyword T_END (cols 16 16)]
   \<and> yyloop ex_state_vendor_bracket
        = Some (Inl (EvalParseError (cols 8 9)
                       ''syntax error, unexpected ], expecting * or integer''))"
proof -
  have c1: "convertUint32 (spec_context V4 []) ''4491'' (cols 8 18) = Inr 4491"
    by (simp add: spec_context_def convert_decimal_def digit_value_def)
  have c2: "convertUint32 (spec_context V4 []) ''4294967296'' (cols 8 18)
        = Inl (ConversionError (cols 8 18))"
    by (simp add: spec_context_def convert_decimal_def digit_value_def)
  have t: "top_state ex_state_vendor_bracket \<in> {38, 40, 92, 93}"
    "top_state ex_state_vendor_bracket = 40"
    by (simp_all add: top_state_def ex_state_vendor_bracket_def)
  have p: "pending ex_state_vendor_bracket
        = keyword T_RBRACKET (cols 8 9) # [keyword T_DOT (cols 9 10),
               keyword T_EXISTS (cols 10 16), keyword T_END (cols 16 16)]"
    by (simp add: pending_def ex_state_vendor_bracket_def)
  have k: "sym_type (keyword T_RBRACKET (cols 8 9)) \<noteq> T_ANY"
    "sym_type (keyword T_RBRACKET (cols 8 9)) \<noteq> T_INTEGER"
    "sym_location (keyword T_RBRACKET (cols 8 9)) = cols 8 9"
    by (simp_all add: terminal_defs)
  have m: "yysyntax_error 40 (Some (keyword T_RBRACKET (cols 8 9)))
        = ''syntax error, unexpected ], expecting * or integer''"
    by code_simp
  have e: "expression (spec_context V4 []) = []" "universe (spec_context V4 []) = V4"
    by (simp_all add: spec_context_def)
  from enterprise_id_forms [of "spec_context V4 []" "''4491''" "cols 8 18" 4491
      "cols 1 1" "cols 1 7" "cols 7 8" "cols 18 19" "cols 19 20" "cols 20 26" "cols 26 26"
      "ConversionError (cols 8 18)" "cols 8 9" ex_state_vendor_bracket
      "keyword T_RBRACKET (cols 8 9)"
      "[keyword T_DOT (cols 9 10), keyword T_EXISTS (cols 10 16), keyword T_END (cols 16 16)]"]
    enterprise_id_forms [of "spec_context V4 []" "''4294967296''" "cols 8 18" 4491
      "cols 1 1" "cols 1 7" "cols 7 8" "cols 18 19" "cols 19 20" "cols 20 26" "cols 26 26"
      "ConversionError (cols 8 18)" "cols 8 9" ex_state_vendor_bracket
      "keyword T_RBRACKET (cols 8 9)"
      "[keyword T_DOT (cols 9 10), keyword T_EXISTS (cols 10 16), keyword T_END (cols 16 16)]"]
    c1 c2 t p k m e
  show ?thesis by (simp add: ex_vendor_exists_def)
qed

subsection \<open>C6: the data chunk of a vendor-class token\<close>

text \<open>
  C6. For every enterprise id literal \<open>E\<close> that converts to \<open>e\<close>, compiling
  \<^verbatim>\<open>vendor-class[E].data\<close> yields the vendor-class token in DATA mode with
  chunk index 0, and compiling \<^verbatim>\<open>vendor-class[E].data[N]\<close> yields it with the
  index that \<^verbatim>\<open>convertUint8\<close> returns for \<open>N\<close>; when that conversion raises
  an error, the compilation ends with it. The conversion as the specification describes
  it returns the value of a decimal literal below 256 and raises a conversion error for
  a larger one.
\<close>

theorem vendor_class_data_index:
  "(convertUint32 c E le = Inr e \<longrightarrow>
      compile c [keyword T_TOPLEVEL_STRING l0, keyword T_VENDOR_CLASS l1, keyword T_LBRACKET l2,
                 literal T_INTEGER E le, keyword T_RBRACKET l4, keyword T_DOT l5,
                 keyword T_DATA l6, keyword T_END l7]
        = Some (Inr (expression c @ [TokenVendorClass (universe c) e (Field DATA) (Some 0)])))
   \<and> (convertUint32 c E le = Inr e \<and> convertUint8 c N ln = Inr i \<longrightarrow>
      compile c [keyword T_TOPLEVEL_STRING l0, keyword T_VENDOR_CLASS l1, keyword T_LBRACKET l2,
                 literal T_INTEGER E le, keyword T_RBRACKET l4, keyword T_DOT l5,
                 keyword T_DATA l6, keyword T_LBRACKET l7, literal T_INTEGER N ln,
                 keyword T_RBRACKET l9, keyword T_END l10]
        = Some (Inr (expression c @ [TokenVendorClass (universe c) e (Field DATA) (Some i)])))
   \<and> (convertUint32 c E le = Inr e \<and> convertUint8 c N ln = Inl err \<longrightarrow>
      compile c [keyword T_TOPLEVEL_STRING l0, keyword T_VENDOR_CLASS l1, keyword T_LBRACKET l2,
                 literal T_INTEGER E le, keyword T_RBRACKET l4, keyword T_DOT l5,
                 keyword T_DATA l6, keyword T_LBRACKET l7, literal T_INTEGER N ln,
                 keyword T_RBRACKET l9, keyword T_END l10]
        = Some (Inl err))
   \<and> (N \<noteq> [] \<and> decimal_value N 0 = Some k \<longrightarrow>
      (convert_decimal N ln :: parse_error + 8 word)
        = (if k < 256 then Inr (word_of_nat k) else Inl (ConversionError ln)))"
  by (simp add: compile_def parse_def yyloop.simps terminal_defs run_defs convert_decimal_def)

theorem vendor_class_data_index_witness:
  "convertUint32 (spec_context V6 []) ''4491'' (cols 14 18) = Inr 4491
   \<and> compile (spec_context V6 [])
        [keyword T_TOPLEVEL_STRING (cols 1 1), keyword T_VENDOR_CLASS (cols 1 13),
         keyword T_LBRACKET (cols 13 14), literal T_INTEGER ''4491'' (cols 14 18),
         keyword T_RBRACKET (cols 18 19), keyword T_DOT (cols 19 20),
         keyword T_DATA (cols 20 24), keyword T_END (cols 24 24)]
        = Some (Inr [TokenVendorClass V6 4491 (Field DATA) (Some 0)])
   \<and> convertUint8 (spec_context V6 []) ''3'' (cols 25 28) = Inr 3
   \<and> compile (spec_context V6 []) (ex_vendor_class_data ''4491'' ''3'')
        = Some (Inr [TokenVendorClass V6 4491 (Field DATA) (Some 3)])
   \<and> convertUint8 (spec_context V6 []) ''256'' (cols 25 28) = Inl (ConversionError (cols 25 28))
   \<and> compile (spec_context V6 []) (ex_vendor_class_data ''4491'' ''256'')
        = Some (Inl (ConversionError (cols 25 28)))
   \<and> decimal_value ''256'' 0 = Some 256
   \<and> (convert_decimal ''256'' (cols 25 28) :: parse_error + 8 word)
        = Inl (ConversionError (cols 25 28))"
proof -
  have c1: "convertUint32 (spec_context V6 []) ''4491'' (cols 14 18) = Inr 4491"
    by (simp add: spec_context_def convert_decimal_def digit_value_def)
  have c2: "convertUint8 (spec_context V6 []) ''3'' (cols 25 28) = Inr 3"
    by (simp add: spec_context_def convert_decimal_def digit_value_def)
  have c3: "convertUint8 (spec_context V6 []) ''256'' (cols 25 28) = Inl (ConversionError (cols 25 28))"
    by (simp add: spec_context_def convert_decimal_def digit_value_def)
  have d: "decimal_value ''256'' 0 = Some 256" "''256'' \<noteq> []"
    by (simp_all add: digit_value_def)
  have e: "expression (spec_context V6 []) = []" "universe (spec_context V6 []) = V6"
    by (simp_all add: spec_context_def)
  from vendor_class_data_index [of "spec_context V6 []" "''4491''" "cols 14 18" 4491
      "cols 1 1" "cols 1 13" "cols 13 14" "cols 18 19" "cols 19 20" "cols 20 24" "cols 24 24"
      "''3''" "cols 25 28" 3 "cols 29 29" "cols 29 29" "ConversionError (cols 25 28)" 256]
    vendor_class_data_index [of "spec_context V6 []" "''4491''" "cols 14 18" 4491
      "cols 1 1" "cols 1 13" "cols 13 14" "cols 18 19" "cols 19 20" "cols 20 24" "cols 24 25"
      "''3''" "cols 25 28" 3 "cols 28 29" "cols 29 29" "ConversionError (cols 25 28)" 256]
    vendor_class_data_index [of "spec_context V6 []" "''4491''" "cols 14 18" 4491
      "cols 1 1" "cols 1 13" "cols 13 14" "cols 18 19" "cols 19 20" "cols 20 24" "cols 24 25"
      "''256''" "cols 25 28" 3 "cols 28 29" "cols 29 29" "ConversionError (cols 25 28)" 256]
    c1 c2 c3 d e
  show ?thesis by (simp add: ex_vendor_class_data_def)
qed

subsection \<open>C4: the message of a syntax error\<close>

lemma yyexpected_loop_Cons:
  "yyexpected_loop yyn (x # xs) yyarg
     = (if acceptable yyn x
        then (if length yyarg = 5 then take 1 yyarg
              else yyexpected_loop yyn xs (yyarg @ [yytname ! nat x]))
        else yyexpected_loop yyn xs yyarg)"
  by (simp add: acceptable_def YYERROR_VERBOSE_ARGS_MAXIMUM_def)

lemma yyexpected_loop_filter:
  assumes "length yyarg \<le> 5" "yyarg \<noteq> []"
  shows "yyexpected_loop yyn xs yyarg
           = (if length yyarg + length (filter (acceptable yyn) xs) \<le> 5
              then yyarg @ map (\<lambda>x. yytname ! nat x) (filter (acceptable yyn) xs)
              else take 1 yyarg)"
  using assms
proof (induction xs arbitrary: yyarg)
  case Nil
  then show ?case by simp
next
  case (Cons x xs)
  show ?case
  proof (cases "acceptable yyn x")
    case False
    with Cons show ?thesis by (simp add: yyexpected_loop_Cons del: yyexpected_loop.simps)
  next
    case True
    show ?thesis
    proof (cases "length yyarg = 5")
      case l5: True
      with True show ?thesis
        by (simp add: yyexpected_loop_Cons del: yyexpected_loop.simps)
    next
      case False
      with Cons.prems have "length (yyarg @ [yytname ! nat x]) \<le> 5"
        "yyarg @ [yytname ! nat x] \<noteq> []" by simp_all
      from Cons.IH [OF this] True False Cons.prems show ?thesis
        by (cases yyarg) (simp_all add: yyexpected_loop_Cons del: yyexpected_loop.simps)
    qed
  qed
qed

lemma filter_upto_bounds:
  "filter (\<lambda>x. lo \<le> x \<and> x \<le> hi \<and> P x) [l..u] = filter P [max l lo..min u hi]"
proof -
  have "sorted (filter (\<lambda>x. lo \<le> x \<and> x \<le> hi \<and> P x) [l..u])"
    "distinct (filter (\<lambda>x. lo \<le> x \<and> x \<le> hi \<and> P x) [l..u])"
    "sorted (filter P [max l lo..min u hi])" "distinct (filter P [max l lo..min u hi])"
    by (simp_all add: sorted_wrt_filter)
  moreover have "set (filter (\<lambda>x. lo \<le> x \<and> x \<le> hi \<and> P x) [l..u])
      = set (filter P [max l lo..min u hi])" by auto
  ultimately show ?thesis by (metis sorted_distinct_set_unique)
qed

lemma expected_range:
  assumes "\<not> yy_pact_value_is_default (yypact ! nat yystate)"
  shows "filter (acceptable (yypact ! nat yystate))
           [(if yypact ! nat yystate < 0 then - (yypact ! nat yystate) else 0)
            ..(if yylast - yypact ! nat yystate + 1 < yyntokens
               then yylast - yypact ! nat yystate + 1 else yyntokens) - 1]
         = expected_terminals yystate"
proof -
  let ?n = "yypact ! nat yystate"
  have "expected_terminals yystate
      = filter (\<lambda>x. - ?n \<le> x \<and> x \<le> yylast - ?n \<and> acceptable ?n x) [0..yyntokens - 1]"
    using assms by (simp add: expected_terminals_def Let_def) (rule filter_cong, auto)
  also have "\<dots> = filter (acceptable ?n) [max 0 (- ?n)..min (yyntokens - 1) (yylast - ?n)]"
    by (rule filter_upto_bounds)
  also have "max 0 (- ?n) = (if ?n < 0 then - ?n else 0)" by simp
  also have "min (yyntokens - 1) (yylast - ?n)
      = (if yylast - ?n + 1 < yyntokens then yylast - ?n + 1 else yyntokens) - 1" by simp
  finally show ?thesis by simp
qed

lemma yysyntax_error_args_expected:
  "yysyntax_error_args yystate (Some la)
     = (if length (expected_terminals yystate) \<le> 4
        then yytname ! nat (sym_type la) # map (\<lambda>x. yytname ! nat x) (expected_terminals yystate)
        else [yytname ! nat (sym_type la)])"
proof (cases "yy_pact_value_is_default (yypact ! nat yystate)")
  case True
  then show ?thesis by (simp add: yysyntax_error_args_def expected_terminals_def Let_def)
next
  case False
  from expected_range [OF False] False show ?thesis
    by (simp add: yysyntax_error_args_def Let_def yyexpected_loop_filter)
qed

lemma short_list:
  assumes "length xs \<le> 4"
  shows "xs = [] \<or> (\<exists>a. xs = [a]) \<or> (\<exists>a b. xs = [a, b]) \<or> (\<exists>a b c. xs = [a, b, c])
         \<or> (\<exists>a b c d. xs = [a, b, c, d])"
proof (cases xs)
  case Nil
  then show ?thesis by simp
next
  case c1: (Cons a as)
  show ?thesis
  proof (cases as)
    case Nil
    with c1 show ?thesis by simp
  next
    case c2: (Cons b bs)
    show ?thesis
    proof (cases bs)
      case Nil
      with c1 c2 show ?thesis by simp
    next
      case c3: (Cons c cs)
      show ?thesis
      proof (cases cs)
        case Nil
        with c1 c2 c3 show ?thesis by simp
      next
        case c4: (Cons d ds)
        with assms c1 c2 c3 have "ds = []" by simp
        with c1 c2 c3 c4 show ?thesis by simp
      qed
    qed
  qed
qed

lemma yysyntax_error_Some:
  "yysyntax_error yystate (Some la) =
     ''syntax error, unexpected '' @ yytnamerr (yytname ! nat (sym_type la)) @
       (let names = map (\<lambda>yyx. yytnamerr (yytname ! nat yyx)) (expected_terminals yystate)
        in if names = [] \<or> 4 < length names then [] else '', expecting '' @ or_list names)"
proof (cases "length (expected_terminals yystate) \<le> 4")
  case False
  then show ?thesis
    by (simp add: yysyntax_error_def yysyntax_error_args_expected Let_def)
next
  case True
  from short_list [OF True] True show ?thesis
    by (elim disjE exE) (simp_all add: yysyntax_error_def yysyntax_error_args_expected Let_def)
qed

text \<open>
  C4 as stated fails: after \<^verbatim>\<open>pkt4.\<close> nine terminals would be accepted, and at
  the end of file the message is \<^verbatim>\<open>syntax error, unexpected end of file\<close>, not
  the bare \<^verbatim>\<open>syntax error\<close>.
\<close>

theorem syntax_error_fallback_counterexample:
  "compile (spec_context V4 []) ex_pkt4_dot
     = Some (Inl (EvalParseError (cols 6 6) ''syntax error, unexpected end of file''))
   \<and> expected_terminals 34 = [26, 27, 28, 29, 30, 31, 32, 38, 39]"
  by code_simp

text \<open>
  C4, amended. A syntax error raises an error located at the offending terminal (the
  lookahead). Its message names the unexpected terminal and then lists the terminals
  that would have been accepted when there are between one and four of them (the
  message has at most five arguments, the unexpected terminal included); when none or
  more than four would be accepted the message is
  \<^verbatim>\<open>syntax error, unexpected\<close> followed by the terminal, with no list.
\<close>

theorem syntax_error_message:
  "(yyla st = Some la \<longrightarrow>
      yyerrlab st
        = Throw (EvalParseError (sym_location la) (yysyntax_error (top_state st) (Some la))))
   \<and> yysyntax_error yystate (Some la) =
       ''syntax error, unexpected '' @ yytnamerr (yytname ! nat (sym_type la)) @
         (let names = map (\<lambda>yyx. yytnamerr (yytname ! nat yyx)) (expected_terminals yystate)
          in if names = [] \<or> 4 < length names then [] else '', expecting '' @ or_list names)"
  by (simp add: yysyntax_error_Some yyerrlab_def top_state_def)

theorem syntax_error_message_witness:
  "yyla ex_state_pkt4_dot = Some (keyword T_END (cols 6 6))
   \<and> yyerrlab ex_state_pkt4_dot
        = Throw (EvalParseError (cols 6 6) ''syntax error, unexpected end of file'')
   \<and> expected_terminals 40 = [T_ANY, T_INTEGER]
   \<and> yysyntax_error 40 (Some (keyword T_RBRACKET (cols 8 9)))
        = ''syntax error, unexpected ], expecting * or integer''"
proof -
  have a: "yyla ex_state_pkt4_dot = Some (keyword T_END (cols 6 6))"
    "top_state ex_state_pkt4_dot = 34"
    by (simp_all add: ex_state_pkt4_dot_def top_state_def)
  have e: "expected_terminals 34 = [26, 27, 28, 29, 30, 31, 32, 38, 39]"
    "expected_terminals 40 = [T_ANY, T_INTEGER]"
    by code_simp+
  have n: "yytnamerr (yytname ! nat (sym_type (keyword T_END (cols 6 6)))) = ''end of file''"
    "yytnamerr (yytname ! nat (sym_type (keyword T_RBRACKET (cols 8 9)))) = '']''"
    "yytnamerr (yytname ! nat T_ANY) = ''*''" "yytnamerr (yytname ! nat T_INTEGER) = ''integer''"
    "sym_location (keyword T_END (cols 6 6)) = cols 6 6"
    by code_simp+
  from syntax_error_message [of ex_state_pkt4_dot "keyword T_END (cols 6 6)" 34]
    syntax_error_message [of ex_state_pkt4_dot "keyword T_RBRACKET (cols 8 9)" 40]
    a e n
  show ?thesis by simp
qed

end
